theory Spec2Isabelle
  imports Complex_Main "HOL-Library.Word"
begin

section \<open>JavaScript values\<close>

text \<open>
  A JavaScript string is a sequence of UTF-16 code units; \<open>length\<close>, \<open>charCodeAt\<close>,
  \<open>startsWith\<close> and \<open>trim\<close> all work on code units. String literals of the source are
  ASCII and are written \<open>js ''...''\<close>.
\<close>

type_synonym jsstring = "16 word list"

definition js :: "string \<Rightarrow> jsstring" where
  "js s = map of_char s"

text \<open>
  A JavaScript \<open>number\<close> is a double: a finite value (every finite double is a real
  number), \<open>NaN\<close>, or one of the two infinities. Negative zero is identified with zero:
  no modelled operation tells them apart.
\<close>

datatype number = Finite real | NaN | PosInfinity | NegInfinity

fun Number_isInteger :: "number \<Rightarrow> bool" where
  "Number_isInteger (Finite x) = (x \<in> \<int>)"
| "Number_isInteger _ = False"

text \<open>\<open>a < c\<close> and \<open>a > c\<close> against a finite constant; every comparison with \<open>NaN\<close> is false.\<close>

fun number_lt :: "number \<Rightarrow> real \<Rightarrow> bool" where
  "number_lt (Finite x) c = (x < c)"
| "number_lt NegInfinity c = True"
| "number_lt _ c = False"

fun number_gt :: "number \<Rightarrow> real \<Rightarrow> bool" where
  "number_gt (Finite x) c = (x > c)"
| "number_gt PosInfinity c = True"
| "number_gt _ c = False"

text \<open>Truthiness of a number: \<open>0\<close> and \<open>NaN\<close> are falsy.\<close>

fun number_truthy :: "number \<Rightarrow> bool" where
  "number_truthy (Finite x) = (x \<noteq> 0)"
| "number_truthy NaN = False"
| "number_truthy _ = True"

text \<open>The integer held by a number that passed \<open>Number.isInteger\<close>.\<close>

fun int_of_number :: "number \<Rightarrow> int" where
  "int_of_number (Finite x) = \<lfloor>x\<rfloor>"
| "int_of_number _ = 0"

text \<open>
  White space and line terminators, the code units removed by \<open>String.prototype.trim\<close> and
  skipped by \<open>parseInt\<close>.
\<close>

definition isWhiteSpace :: "16 word \<Rightarrow> bool" where
  "isWhiteSpace c \<longleftrightarrow>
     c \<in> {0x09, 0x0A, 0x0B, 0x0C, 0x0D, 0x20, 0xA0, 0x1680, 0x2028, 0x2029, 0x202F,
          0x205F, 0x3000, 0xFEFF} \<or> (0x2000 \<le> c \<and> c \<le> 0x200A)"

definition trim :: "jsstring \<Rightarrow> jsstring" where
  "trim s = rev (dropWhile isWhiteSpace (rev (dropWhile isWhiteSpace s)))"

definition startsWith :: "jsstring \<Rightarrow> jsstring \<Rightarrow> bool" where
  "startsWith s p \<longleftrightarrow> take (length p) s = p"

definition endsWith :: "jsstring \<Rightarrow> jsstring \<Rightarrow> bool" where
  "endsWith s p \<longleftrightarrow> length p \<le> length s \<and> drop (length s - length p) s = p"

subsection \<open>parseInt\<close>

text \<open>The value of a code unit as a digit: \<open>0-9\<close>, then \<open>a-z\<close> or \<open>A-Z\<close> for 10 to 35.\<close>

definition digit_value :: "16 word \<Rightarrow> nat option" where
  "digit_value c =
     (if 0x30 \<le> c \<and> c \<le> 0x39 then Some (unat c - 0x30)
      else if 0x61 \<le> c \<and> c \<le> 0x7A then Some (unat c - 0x61 + 10)
      else if 0x41 \<le> c \<and> c \<le> 0x5A then Some (unat c - 0x41 + 10)
      else None)"

definition is_digit :: "nat \<Rightarrow> 16 word \<Rightarrow> bool" where
  "is_digit R c = (case digit_value c of Some d \<Rightarrow> d < R | None \<Rightarrow> False)"

fun digits_value :: "nat \<Rightarrow> nat \<Rightarrow> jsstring \<Rightarrow> nat" where
  "digits_value R acc [] = acc"
| "digits_value R acc (c # cs) = digits_value R (acc * R + the (digit_value c)) cs"

text \<open>
  Integers from \<open>2^1024 - 2^970\<close> on round to \<open>Infinity\<close>. Below that bound the model keeps
  the exact integer where the double is the nearest representable one; the two agree up
  to \<open>2^53\<close>, and beyond it both exceed every bound the source compares them with.
\<close>

definition number_of_nat :: "bool \<Rightarrow> nat \<Rightarrow> number" where
  "number_of_nat negative n =
     (if n < 2 ^ 1024 - 2 ^ 970 then Finite (of_int (if negative then - int n else int n))
      else if negative then NegInfinity else PosInfinity)"

definition parseInt :: "jsstring \<Rightarrow> nat \<Rightarrow> number" where
  "parseInt s R =
     (let s1 = dropWhile isWhiteSpace s;
          negative = (s1 \<noteq> [] \<and> hd s1 = 0x2D);
          s2 = (if s1 \<noteq> [] \<and> (hd s1 = 0x2D \<or> hd s1 = 0x2B) then tl s1 else s1);
          s3 = (if R = 16 \<and> (startsWith s2 (js ''0x'') \<or> startsWith s2 (js ''0X''))
                then drop 2 s2 else s2);
          z = takeWhile (is_digit R) s3
      in if z = [] then NaN else number_of_nat negative (digits_value R 0 z))"

subsection \<open>Case conversion, split, number printing\<close>

text \<open>
  \<open>toUpperCase\<close> and \<open>toLowerCase\<close> on the code units that any string of the source's
  comparisons can come from: the ASCII letters, the two non-ASCII letters whose upper case
  is ASCII (dotless i, long s) and the two whose lower case starts in ASCII (Kelvin sign,
  dotted capital I). Every other code unit is left as it is, where JavaScript maps some to
  other non-ASCII letters or to sequences that occur in none of the literals compared
  with; the outcome of each comparison in the source is the same.
\<close>

definition toUpperCase :: "jsstring \<Rightarrow> jsstring" where
  "toUpperCase s =
     map (\<lambda>c. if 0x61 \<le> c \<and> c \<le> 0x7A then c - 0x20
              else if c = 0x131 then 0x49 else if c = 0x17F then 0x53 else c) s"

definition toLowerCase :: "jsstring \<Rightarrow> jsstring" where
  "toLowerCase s =
     concat (map (\<lambda>c. if 0x41 \<le> c \<and> c \<le> 0x5A then [c + 0x20]
                      else if c = 0x212A then [0x6B]
                      else if c = 0x130 then [0x69, 0x307] else [c]) s)"

text \<open>\<open>s.split(sep)\<close> for a separator of one code unit.\<close>

fun split :: "16 word \<Rightarrow> jsstring \<Rightarrow> jsstring list" where
  "split sep [] = [[]]"
| "split sep (c # cs) =
     (if c = sep then [] # split sep cs
      else (case split sep cs of p # ps \<Rightarrow> (c # p) # ps | [] \<Rightarrow> [[c]]))"

text \<open>
  The digits of a natural number in a radix up to 16, most significant first, as
  \<open>Number.prototype.toString\<close> prints an integer (lower-case letters above 9).
\<close>

definition digit_char :: "nat \<Rightarrow> 16 word" where
  "digit_char d = (if d < 10 then of_nat (0x30 + d) else of_nat (0x61 + (d - 10)))"

function digits_of :: "nat \<Rightarrow> nat \<Rightarrow> jsstring" where
  "digits_of R n =
     (if R < 2 \<or> n < R then [digit_char n] else digits_of R (n div R) @ [digit_char (n mod R)])"
  by pat_completeness auto
termination
  by (relation "measure (\<lambda>(R, n). n)") auto

declare digits_of.simps [simp del]

definition int_toString :: "nat \<Rightarrow> int \<Rightarrow> jsstring" where
  "int_toString R n = (if n < 0 then 0x2D # digits_of R (nat (- n)) else digits_of R (nat n))"

text \<open>
  \<open>String(x)\<close> of a number: exact for \<open>NaN\<close>, the infinities and every integer below
  \<open>10^21\<close> in magnitude, which covers each integer the source prints into a cache key;
  other finite values print with a fraction or an exponent in JavaScript.
\<close>

fun Number_toString :: "number \<Rightarrow> jsstring" where
  "Number_toString (Finite x) = int_toString 10 \<lfloor>x\<rfloor>"
| "Number_toString NaN = js ''NaN''"
| "Number_toString PosInfinity = js ''Infinity''"
| "Number_toString NegInfinity = js ''-Infinity''"

definition padStart2 :: "jsstring \<Rightarrow> jsstring" where
  "padStart2 s = replicate (2 - length s) 0x30 @ s"

section \<open>Errors\<close>

text \<open>
  Every \<open>throw new Error(...)\<close> of the modelled classes is a constructor; the values a
  message interpolates are its arguments. \<open>URLTypeError\<close> is the \<open>TypeError\<close> of the
  platform's \<open>new URL\<close>.
\<close>

datatype error =
    SizeNotIntegers | WidthOutOfRange | HeightOutOfRange | SizeBadFormat
  | DataEmpty | DataTooLong | DataInvalidUrl
  | ColorInvalidFormat jsstring | HexInvalidFormat jsstring | RGBInvalidFormat jsstring
  | RGBNotIntegers jsstring | RGBComponentOutOfRange string number
  | InvalidOutputFormat jsstring | InvalidErrorCorrectionLevel jsstring
  | LogoSourceEmpty | LogoPrivateHost | LogoUnsupportedExtension | LogoInvalidSource jsstring
  | LogoSizeInvalid | LogoMarginInvalid | URLTypeError jsstring
  | MarginInvalid | QuietZoneInvalid | CharsetIncompatible jsstring
  | UnsupportedSourceCharset jsstring | UnsupportedTargetCharset jsstring

primrec message :: "error \<Rightarrow> jsstring" where
  "message SizeNotIntegers = js ''Width and height must be integers''"
| "message WidthOutOfRange = js ''Width must be between 10 and 1000 pixels''"
| "message HeightOutOfRange = js ''Height must be between 10 and 1000 pixels''"
| "message SizeBadFormat = js ''Size must be in format WxH (e.g., 200x200)''"
| "message DataEmpty = js ''Data content cannot be empty''"
| "message DataTooLong = js ''Data content cannot exceed 900 characters''"
| "message DataInvalidUrl = js ''Invalid URL format in data content''"
| "message (ColorInvalidFormat s) =
     js ''Invalid color format: '' @ s @ js ''. Use hex (#RRGGBB or RRGGBB) or RGB (r-g-b) format''"
| "message (HexInvalidFormat s) = js ''Invalid hex color format: '' @ s"
| "message (RGBInvalidFormat s) = js ''Invalid RGB format: '' @ s @ js ''. Use format r-g-b''"
| "message (RGBNotIntegers s) =
     js ''Invalid RGB values: '' @ s @ js ''. All values must be integers''"
| "message (RGBComponentOutOfRange component v) =
     js ''Invalid '' @ js component @ js '' value: '' @ Number_toString v
       @ js ''. Must be between 0 and 255''"
| "message (InvalidOutputFormat s) =
     js ''Invalid output format: '' @ s @ js ''. Valid formats: png, gif, jpeg, jpg, svg, eps''"
| "message (InvalidErrorCorrectionLevel s) =
     js ''Invalid error correction level: '' @ s @ js ''. Valid values: L, M, Q, H''"
| "message LogoSourceEmpty = js ''Logo source cannot be empty''"
| "message LogoPrivateHost = js ''Private IP addresses and localhost are not allowed''"
| "message LogoUnsupportedExtension =
     js ''Logo URL must point to a supported image format (PNG, JPG, JPEG, SVG)''"
| "message (LogoInvalidSource s) =
     js ''Invalid logo source: '' @ s
       @ js ''. Must be a valid URL or predefined logo identifier (google, facebook, twitter, linkedin)''"
| "message LogoSizeInvalid = js ''Logo size must be an integer between 10 and 200 pixels''"
| "message LogoMarginInvalid = js ''Logo margin must be an integer between 0 and 50 pixels''"
| "message (URLTypeError s) = js ''Invalid URL''"
| "message MarginInvalid = js ''Margin must be an integer between 0 and 50 pixels''"
| "message QuietZoneInvalid = js ''Quiet zone must be an integer between 0 and 100 modules''"
| "message (CharsetIncompatible cs) = js ''Data content is not compatible with charset: '' @ cs"
| "message (UnsupportedSourceCharset cs) =
     js ''Unsupported source charset: '' @ cs @ js ''. Supported: UTF-8, ISO-8859-1''"
| "message (UnsupportedTargetCharset cs) =
     js ''Unsupported target charset: '' @ cs @ js ''. Supported: UTF-8, ISO-8859-1''"

section \<open>Size\<close>

record Size =
  width :: int
  height :: int

definition Size_create :: "number \<Rightarrow> number \<Rightarrow> error + Size" where
  "Size_create w h =
     (if \<not> Number_isInteger w \<or> \<not> Number_isInteger h then Inl SizeNotIntegers
      else if number_lt w 10 \<or> number_gt w 1000 then Inl WidthOutOfRange
      else if number_lt h 10 \<or> number_gt h 1000 then Inl HeightOutOfRange
      else Inr \<lparr>width = int_of_number w, height = int_of_number h\<rparr>)"

text \<open>
  The match of \<open>/^(\d+)x(\d+)$/i\<close>: a non-empty run of decimal digits, \<open>x\<close> or \<open>X\<close>, and a
  non-empty run of decimal digits up to the end of the input. It returns the two groups.
\<close>

definition Size_match :: "jsstring \<Rightarrow> (jsstring \<times> jsstring) option" where
  "Size_match s =
     (let g1 = takeWhile (is_digit 10) s in
      case dropWhile (is_digit 10) s of
        [] \<Rightarrow> None
      | c # g2 \<Rightarrow>
          if g1 \<noteq> [] \<and> (c = 0x78 \<or> c = 0x58) \<and> g2 \<noteq> [] \<and> list_all (is_digit 10) g2
          then Some (g1, g2) else None)"

definition Size_fromString :: "jsstring \<Rightarrow> error + Size" where
  "Size_fromString sizeStr =
     (case Size_match sizeStr of
        None \<Rightarrow> Inl SizeBadFormat
      | Some (g1, g2) \<Rightarrow> Size_create (parseInt g1 10) (parseInt g2 10))"

definition Size_default :: Size where
  "Size_default = \<lparr>width = 200, height = 200\<rparr>"

definition isSquare :: "Size \<Rightarrow> bool" where
  "isSquare s \<longleftrightarrow> width s = height s"

definition Size_toString :: "Size \<Rightarrow> jsstring" where
  "Size_toString s = int_toString 10 (width s) @ js ''x'' @ int_toString 10 (height s)"


section \<open>The platform's URL parser\<close>

text \<open>
  \<open>new URL(s)\<close> is the WHATWG URL parser of the runtime, not code of this repository. The
  model takes it as a parameter \<open>new_URL\<close>: \<open>None\<close> where the constructor throws, otherwise
  the three components the source reads.
\<close>

record URL =
  protocol :: jsstring
  hostname :: jsstring
  pathname :: jsstring

type_synonym url_parser = "jsstring \<Rightarrow> URL option"

section \<open>DataPayload\<close>

record DataPayload =
  content :: jsstring

definition DataPayload_isUrl :: "jsstring \<Rightarrow> bool" where
  "DataPayload_isUrl c \<longleftrightarrow>
     startsWith c (js ''http://'') \<or> startsWith c (js ''https://'') \<or> startsWith c (js ''ftp://'')"

definition DataPayload_create :: "url_parser \<Rightarrow> jsstring \<Rightarrow> error + DataPayload" where
  "DataPayload_create new_URL data =
     (if data = [] \<or> length (trim data) = 0 then Inl DataEmpty
      else if length data > 900 then Inl DataTooLong
      else if DataPayload_isUrl data \<and> new_URL data = None then Inl DataInvalidUrl
      else Inr \<lparr>content = trim data\<rparr>)"

datatype complexity = low | medium | high

definition getComplexityLevel :: "DataPayload \<Rightarrow> complexity" where
  "getComplexityLevel d =
     (if length (content d) \<le> 100 then low
      else if length (content d) \<le> 400 then medium else high)"

definition isCompatibleWithCharset :: "DataPayload \<Rightarrow> jsstring \<Rightarrow> bool" where
  "isCompatibleWithCharset d charset =
     (if toUpperCase charset = js ''ISO-8859-1'' then list_all (\<lambda>c. \<not> c > 255) (content d)
      else True)"

section \<open>ErrorCorrectionLevel and OutputFormat\<close>

datatype ErrorCorrectionLevel = LOW | MEDIUM | QUARTILE | HIGH

fun ErrorCorrectionLevel_toString :: "ErrorCorrectionLevel \<Rightarrow> jsstring" where
  "ErrorCorrectionLevel_toString LOW = js ''L''"
| "ErrorCorrectionLevel_toString MEDIUM = js ''M''"
| "ErrorCorrectionLevel_toString QUARTILE = js ''Q''"
| "ErrorCorrectionLevel_toString HIGH = js ''H''"

definition ErrorCorrectionLevelValue_create :: "jsstring \<Rightarrow> error + ErrorCorrectionLevel" where
  "ErrorCorrectionLevelValue_create level =
     (let upperLevel = toUpperCase level in
      if upperLevel = js ''L'' then Inr LOW
      else if upperLevel = js ''M'' then Inr MEDIUM
      else if upperLevel = js ''Q'' then Inr QUARTILE
      else if upperLevel = js ''H'' then Inr HIGH
      else Inl (InvalidErrorCorrectionLevel level))"

definition ErrorCorrectionLevelValue_default :: ErrorCorrectionLevel where
  "ErrorCorrectionLevelValue_default = LOW"

datatype OutputFormat = PNG | GIF | JPEG | JPG | SVG | EPS

fun OutputFormat_toString :: "OutputFormat \<Rightarrow> jsstring" where
  "OutputFormat_toString PNG = js ''png''"
| "OutputFormat_toString GIF = js ''gif''"
| "OutputFormat_toString JPEG = js ''jpeg''"
| "OutputFormat_toString JPG = js ''jpg''"
| "OutputFormat_toString SVG = js ''svg''"
| "OutputFormat_toString EPS = js ''eps''"

definition OutputFormatValue_create :: "jsstring \<Rightarrow> error + OutputFormat" where
  "OutputFormatValue_create format =
     (let lowerFormat = toLowerCase format in
      if lowerFormat = js ''png'' then Inr PNG
      else if lowerFormat = js ''gif'' then Inr GIF
      else if lowerFormat = js ''jpeg'' then Inr JPEG
      else if lowerFormat = js ''jpg'' then Inr JPG
      else if lowerFormat = js ''svg'' then Inr SVG
      else if lowerFormat = js ''eps'' then Inr EPS
      else Inl (InvalidOutputFormat format))"

definition OutputFormatValue_default :: OutputFormat where
  "OutputFormatValue_default = PNG"

section \<open>ColorValue\<close>

text \<open>
  The components are the integers \<open>parseInt\<close> returns. \<open>ColorValue.fromRGB\<close>, which only
  the tests call, is modelled on integer arguments.
\<close>

record ColorValue =
  r :: int
  g :: int
  b :: int

definition validateRGBComponent :: "number \<Rightarrow> string \<Rightarrow> error option" where
  "validateRGBComponent v component =
     (if number_lt v 0 \<or> number_gt v 255 then Some (RGBComponentOutOfRange component v)
      else None)"

definition rgb_of :: "number \<Rightarrow> number \<Rightarrow> number \<Rightarrow> ColorValue" where
  "rgb_of x y z = \<lparr>r = int_of_number x, g = int_of_number y, b = int_of_number z\<rparr>"

definition parseHexColor :: "jsstring \<Rightarrow> error + ColorValue" where
  "parseHexColor hex =
     (let cleanHex = remove1 0x23 hex in
      if length cleanHex = 3 then
        (let x = parseInt [cleanHex ! 0, cleanHex ! 0] 16;
             y = parseInt [cleanHex ! 1, cleanHex ! 1] 16;
             z = parseInt [cleanHex ! 2, cleanHex ! 2] 16
         in if x = NaN \<or> y = NaN \<or> z = NaN then Inl (HexInvalidFormat hex)
            else Inr (rgb_of x y z))
      else if length cleanHex = 6 then
        (let x = parseInt (take 2 cleanHex) 16;
             y = parseInt (take 2 (drop 2 cleanHex)) 16;
             z = parseInt (take 2 (drop 4 cleanHex)) 16
         in if x = NaN \<or> y = NaN \<or> z = NaN then Inl (HexInvalidFormat hex)
            else Inr (rgb_of x y z))
      else Inl (HexInvalidFormat hex))"

definition parseRGBString :: "jsstring \<Rightarrow> error + ColorValue" where
  "parseRGBString rgbStr =
     (let parts = split 0x2D rgbStr in
      if length parts \<noteq> 3 then Inl (RGBInvalidFormat rgbStr)
      else
        (let x = parseInt (parts ! 0) 10;
             y = parseInt (parts ! 1) 10;
             z = parseInt (parts ! 2) 10
         in if x = NaN \<or> y = NaN \<or> z = NaN then Inl (RGBNotIntegers rgbStr)
            else (case validateRGBComponent x ''red'' of Some e \<Rightarrow> Inl e | None \<Rightarrow>
                 (case validateRGBComponent y ''green'' of Some e \<Rightarrow> Inl e | None \<Rightarrow>
                 (case validateRGBComponent z ''blue'' of Some e \<Rightarrow> Inl e | None \<Rightarrow>
                  Inr (rgb_of x y z))))))"

text \<open>The test of \<open>/^[0-9a-fA-F]{3}$|^[0-9a-fA-F]{6}$/\<close>.\<close>

definition is_hex_3_or_6 :: "jsstring \<Rightarrow> bool" where
  "is_hex_3_or_6 s \<longleftrightarrow> (length s = 3 \<or> length s = 6) \<and> list_all (is_digit 16) s"

definition parseColor :: "jsstring \<Rightarrow> error + ColorValue" where
  "parseColor colorInput =
     (if startsWith colorInput (js ''#'') then parseHexColor colorInput
      else if 0x2D \<in> set colorInput then parseRGBString colorInput
      else if is_hex_3_or_6 colorInput then parseHexColor (js ''#'' @ colorInput)
      else Inl (ColorInvalidFormat colorInput))"

definition ColorValue_create :: "jsstring \<Rightarrow> error + ColorValue" where
  "ColorValue_create colorInput = parseColor colorInput"

definition ColorValue_fromRGB :: "int \<Rightarrow> int \<Rightarrow> int \<Rightarrow> error + ColorValue" where
  "ColorValue_fromRGB x y z =
     (case validateRGBComponent (Finite (of_int x)) ''red'' of Some e \<Rightarrow> Inl e | None \<Rightarrow>
     (case validateRGBComponent (Finite (of_int y)) ''green'' of Some e \<Rightarrow> Inl e | None \<Rightarrow>
     (case validateRGBComponent (Finite (of_int z)) ''blue'' of Some e \<Rightarrow> Inl e | None \<Rightarrow>
      Inr \<lparr>r = x, g = y, b = z\<rparr>)))"

definition black :: ColorValue where
  "black = \<lparr>r = 0, g = 0, b = 0\<rparr>"

definition white :: ColorValue where
  "white = \<lparr>r = 255, g = 255, b = 255\<rparr>"

definition toHex :: "ColorValue \<Rightarrow> jsstring" where
  "toHex c =
     js ''#'' @ padStart2 (int_toString 16 (r c)) @ padStart2 (int_toString 16 (g c))
       @ padStart2 (int_toString 16 (b c))"

text \<open>
  Luminance and contrast are double arithmetic in the source; the model computes them
  on the reals, with \<open>powr\<close> for \<open>Math.pow\<close>. No claim below depends on a rounding.
\<close>

definition sRGB :: "int \<Rightarrow> real" where
  "sRGB c = (let c' = real_of_int c / 255 in
             if c' \<le> 0.03928 then c' / 12.92 else ((c' + 0.055) / 1.055) powr 2.4)"

definition getLuminance :: "ColorValue \<Rightarrow> real" where
  "getLuminance c = 0.2126 * sRGB (r c) + 0.7152 * sRGB (g c) + 0.0722 * sRGB (b c)"

definition getContrastRatio :: "ColorValue \<Rightarrow> ColorValue \<Rightarrow> real" where
  "getContrastRatio c other =
     (let l1 = getLuminance c; l2 = getLuminance other;
          lighter = max l1 l2; darker = min l1 l2
      in (lighter + 0.05) / (darker + 0.05))"

definition hasAccessibleContrast :: "ColorValue \<Rightarrow> ColorValue \<Rightarrow> bool" where
  "hasAccessibleContrast c other \<longleftrightarrow> getContrastRatio c other \<ge> 3.0"

section \<open>Logo\<close>

text \<open>The fields \<open>source\<close>, \<open>size\<close> and \<open>margin\<close> of the class, prefixed by its name.\<close>

record Logo =
  logo_source :: jsstring
  logo_size :: int
  logo_margin :: int

definition Logo_isUrl :: "url_parser \<Rightarrow> jsstring \<Rightarrow> bool" where
  "Logo_isUrl new_URL src =
     (case new_URL src of
        Some url \<Rightarrow> protocol url = js ''http:'' \<or> protocol url = js ''https:''
      | None \<Rightarrow> False)"

definition Logo_validateUrl :: "url_parser \<Rightarrow> jsstring \<Rightarrow> error option" where
  "Logo_validateUrl new_URL src =
     (case new_URL src of
        None \<Rightarrow> Some (URLTypeError src)
      | Some url \<Rightarrow>
          if hostname url = js ''localhost'' \<or> hostname url = js ''127.0.0.1''
             \<or> startsWith (hostname url) (js ''192.168.'')
             \<or> startsWith (hostname url) (js ''10.'')
             \<or> startsWith (hostname url) (js ''172.'')
          then Some LogoPrivateHost
          else
            (let path = toLowerCase (pathname url) in
             if \<not> list_ex (\<lambda>ext. endsWith path ext)
                      [js ''.png'', js ''.jpg'', js ''.jpeg'', js ''.svg'']
             then Some LogoUnsupportedExtension else None))"

definition isPredefinedLogo :: "jsstring \<Rightarrow> bool" where
  "isPredefinedLogo src \<longleftrightarrow>
     toLowerCase src \<in> set [js ''google'', js ''facebook'', js ''twitter'', js ''linkedin'',
                             js ''github'', js ''apple'']"

definition Logo_validateSource :: "url_parser \<Rightarrow> jsstring \<Rightarrow> error + jsstring" where
  "Logo_validateSource new_URL src =
     (if src = [] \<or> length (trim src) = 0 then Inl LogoSourceEmpty
      else
        (let trimmedSource = trim src in
         if Logo_isUrl new_URL trimmedSource then
           (case Logo_validateUrl new_URL trimmedSource of
              Some e \<Rightarrow> Inl e | None \<Rightarrow> Inr trimmedSource)
         else if isPredefinedLogo trimmedSource then Inr trimmedSource
         else Inl (LogoInvalidSource src)))"

definition Logo_validateSize :: "number \<Rightarrow> error + int" where
  "Logo_validateSize n =
     (if \<not> Number_isInteger n \<or> number_lt n 10 \<or> number_gt n 200 then Inl LogoSizeInvalid
      else Inr (int_of_number n))"

definition Logo_validateMargin :: "number \<Rightarrow> error + int" where
  "Logo_validateMargin n =
     (if \<not> Number_isInteger n \<or> number_lt n 0 \<or> number_gt n 50 then Inl LogoMarginInvalid
      else Inr (int_of_number n))"

text \<open>\<open>size || 50\<close>: an absent, zero or \<open>NaN\<close> size is replaced by 50.\<close>

definition Logo_create ::
    "url_parser \<Rightarrow> jsstring \<Rightarrow> number option \<Rightarrow> number option \<Rightarrow> error + Logo" where
  "Logo_create new_URL src sz mg =
     (case Logo_validateSource new_URL src of
        Inl e \<Rightarrow> Inl e
      | Inr validatedSource \<Rightarrow>
     (case Logo_validateSize
             (case sz of Some n \<Rightarrow> if number_truthy n then n else Finite 50
                       | None \<Rightarrow> Finite 50) of
        Inl e \<Rightarrow> Inl e
      | Inr validatedSize \<Rightarrow>
     (case Logo_validateMargin (case mg of Some n \<Rightarrow> n | None \<Rightarrow> Finite 5) of
        Inl e \<Rightarrow> Inl e
      | Inr validatedMargin \<Rightarrow>
          Inr \<lparr>logo_source = validatedSource, logo_size = validatedSize,
               logo_margin = validatedMargin\<rparr>)))"

text \<open>
  The two conditions of \<open>validateUrl\<close> and the two defaults of \<open>create\<close>, by name: the
  host test of the security check, the extension test on a path, \<open>size || 50\<close> and
  \<open>margin !== undefined ? margin : 5\<close>.
\<close>

definition blocked_host :: "jsstring \<Rightarrow> bool" where
  "blocked_host h \<longleftrightarrow>
     h = js ''localhost'' \<or> h = js ''127.0.0.1'' \<or> startsWith h (js ''192.168.'')
     \<or> startsWith h (js ''10.'') \<or> startsWith h (js ''172.'')"

definition image_path :: "jsstring \<Rightarrow> bool" where
  "image_path path \<longleftrightarrow>
     endsWith path (js ''.png'') \<or> endsWith path (js ''.jpg'') \<or> endsWith path (js ''.jpeg'')
     \<or> endsWith path (js ''.svg'')"

definition effective_size :: "number option \<Rightarrow> number" where
  "effective_size sz = (case sz of Some n \<Rightarrow> if number_truthy n then n else Finite 50 | None \<Rightarrow> Finite 50)"

definition effective_margin :: "number option \<Rightarrow> number" where
  "effective_margin mg = (case mg of Some n \<Rightarrow> n | None \<Rightarrow> Finite 5)"


section \<open>Buffer\<close>

text \<open>
  \<open>Buffer.from(s)\<close> encodes a string as UTF-8. A high surrogate followed by a low
  surrogate is one code point of four bytes; a surrogate that stands alone is encoded
  as U+FFFD, the bytes EF BF BD.
\<close>

definition is_high_surrogate :: "16 word \<Rightarrow> bool" where
  "is_high_surrogate c \<longleftrightarrow> 0xD800 \<le> c \<and> c < 0xDC00"

definition is_low_surrogate :: "16 word \<Rightarrow> bool" where
  "is_low_surrogate c \<longleftrightarrow> 0xDC00 \<le> c \<and> c < 0xE000"

definition utf8_1 :: "nat \<Rightarrow> 8 word list" where
  "utf8_1 u = [of_nat u]"

definition utf8_2 :: "nat \<Rightarrow> 8 word list" where
  "utf8_2 u = [of_nat (0xC0 + u div 64), of_nat (0x80 + u mod 64)]"

definition utf8_3 :: "nat \<Rightarrow> 8 word list" where
  "utf8_3 u = [of_nat (0xE0 + u div 4096), of_nat (0x80 + (u div 64) mod 64),
               of_nat (0x80 + u mod 64)]"

definition utf8_4 :: "nat \<Rightarrow> 8 word list" where
  "utf8_4 u = [of_nat (0xF0 + u div 262144), of_nat (0x80 + (u div 4096) mod 64),
               of_nat (0x80 + (u div 64) mod 64), of_nat (0x80 + u mod 64)]"

fun Buffer_from :: "jsstring \<Rightarrow> 8 word list" where
  "Buffer_from [] = []"
| "Buffer_from [c] =
     (if c < 0x80 then utf8_1 (unat c)
      else if c < 0x800 then utf8_2 (unat c)
      else if is_high_surrogate c \<or> is_low_surrogate c then [0xEF, 0xBF, 0xBD]
      else utf8_3 (unat c))"
| "Buffer_from (c # d # rest) =
     (if c < 0x80 then utf8_1 (unat c) @ Buffer_from (d # rest)
      else if c < 0x800 then utf8_2 (unat c) @ Buffer_from (d # rest)
      else if is_high_surrogate c then
        (if is_low_surrogate d
         then utf8_4 (0x10000 + (unat c - 0xD800) * 1024 + (unat d - 0xDC00)) @ Buffer_from rest
         else [0xEF, 0xBF, 0xBD] @ Buffer_from (d # rest))
      else if is_low_surrogate c then [0xEF, 0xBF, 0xBD] @ Buffer_from (d # rest)
      else utf8_3 (unat c) @ Buffer_from (d # rest))"

text \<open>\<open>buf.toString('base64')\<close>: the standard alphabet, padded with \<open>=\<close>.\<close>

definition base64_char :: "nat \<Rightarrow> 16 word" where
  "base64_char n =
     (if n < 26 then of_nat (0x41 + n)
      else if n < 52 then of_nat (0x61 + (n - 26))
      else if n < 62 then of_nat (0x30 + (n - 52))
      else if n = 62 then 0x2B else 0x2F)"

fun toString_base64 :: "8 word list \<Rightarrow> jsstring" where
  "toString_base64 [] = []"
| "toString_base64 [x] =
     [base64_char (unat x div 4), base64_char ((unat x mod 4) * 16), 0x3D, 0x3D]"
| "toString_base64 [x, y] =
     [base64_char (unat x div 4), base64_char ((unat x mod 4) * 16 + unat y div 16),
      base64_char ((unat y mod 16) * 4), 0x3D]"
| "toString_base64 (x # y # z # rest) =
     [base64_char (unat x div 4), base64_char ((unat x mod 4) * 16 + unat y div 16),
      base64_char ((unat y mod 16) * 4 + unat z div 64), base64_char (unat z mod 64)]
     @ toString_base64 rest"

text \<open>\<open>components.join(sep)\<close>.\<close>

fun join :: "jsstring \<Rightarrow> jsstring list \<Rightarrow> jsstring" where
  "join sep [] = []"
| "join sep [x] = x"
| "join sep (x # y # ys) = x @ sep @ join sep (y # ys)"

section \<open>QRCodeConfiguration\<close>

text \<open>
  The fields of the class. The field \<open>size\<close> is written \<open>size'\<close>: HOL has a constant
  \<open>size\<close>. The fields of the parameter object are prefixed by \<open>params\<close>; an optional
  field that is absent (\<open>undefined\<close>) is \<open>None\<close>.
\<close>

record QRCodeConfiguration =
  data :: DataPayload
  size' :: Size
  format :: OutputFormat
  errorCorrectionLevel :: ErrorCorrectionLevel
  foregroundColor :: ColorValue
  backgroundColor :: ColorValue
  margin :: int
  quietZone :: int
  charsetSource :: jsstring
  charsetTarget :: jsstring

record QRCodeConfigurationParams =
  params_data :: DataPayload
  params_size :: "Size option"
  params_format :: "OutputFormat option"
  params_errorCorrectionLevel :: "ErrorCorrectionLevel option"
  params_foregroundColor :: "ColorValue option"
  params_backgroundColor :: "ColorValue option"
  params_margin :: "number option"
  params_quietZone :: "number option"
  params_charsetSource :: "jsstring option"
  params_charsetTarget :: "jsstring option"

definition validateMargin :: "number option \<Rightarrow> error + int" where
  "validateMargin m =
     (case m of
        None \<Rightarrow> Inr 1
      | Some n \<Rightarrow>
          if \<not> Number_isInteger n \<or> number_lt n 0 \<or> number_gt n 50 then Inl MarginInvalid
          else Inr (int_of_number n))"

definition validateQuietZone :: "number option \<Rightarrow> error + int" where
  "validateQuietZone qz =
     (case qz of
        None \<Rightarrow> Inr 0
      | Some n \<Rightarrow>
          if \<not> Number_isInteger n \<or> number_lt n 0 \<or> number_gt n 100 then Inl QuietZoneInvalid
          else Inr (int_of_number n))"

text \<open>\<open>s || dflt\<close> on an optional string: absent and empty strings are falsy.\<close>

definition string_or :: "jsstring option \<Rightarrow> jsstring \<Rightarrow> jsstring" where
  "string_or s dflt = (case s of None \<Rightarrow> dflt | Some v \<Rightarrow> if v = [] then dflt else v)"

definition supportedCharsets :: "jsstring list" where
  "supportedCharsets = [js ''UTF-8'', js ''ISO-8859-1'']"

text \<open>
  \<open>validateConfiguration\<close> throws or returns; the lines it writes with \<open>console.warn\<close>
  are its result.
\<close>

definition contrast_warning :: string where
  "contrast_warning = ''Warning: Color combination may not meet WCAG AA accessibility standards''"

definition validateConfiguration :: "QRCodeConfiguration \<Rightarrow> error + string list" where
  "validateConfiguration c =
     (if \<not> isCompatibleWithCharset (data c) (charsetSource c)
      then Inl (CharsetIncompatible (charsetSource c))
      else if charsetSource c \<notin> set supportedCharsets
      then Inl (UnsupportedSourceCharset (charsetSource c))
      else if charsetTarget c \<notin> set supportedCharsets
      then Inl (UnsupportedTargetCharset (charsetTarget c))
      else if \<not> hasAccessibleContrast (foregroundColor c) (backgroundColor c)
      then Inr [contrast_warning]
      else Inr [])"

definition QRCodeConfiguration_new ::
    "QRCodeConfigurationParams \<Rightarrow> error + QRCodeConfiguration \<times> string list" where
  "QRCodeConfiguration_new params =
     (case validateMargin (params_margin params) of
        Inl e \<Rightarrow> Inl e
      | Inr m \<Rightarrow>
     (case validateQuietZone (params_quietZone params) of
        Inl e \<Rightarrow> Inl e
      | Inr qz \<Rightarrow>
          (let this = \<lparr>data = params_data params,
                       size' = (case params_size params of Some s \<Rightarrow> s | None \<Rightarrow> Size_default),
                       format = (case params_format params of
                                   Some f \<Rightarrow> f | None \<Rightarrow> OutputFormatValue_default),
                       errorCorrectionLevel =
                         (case params_errorCorrectionLevel params of
                            Some l \<Rightarrow> l | None \<Rightarrow> ErrorCorrectionLevelValue_default),
                       foregroundColor =
                         (case params_foregroundColor params of Some c \<Rightarrow> c | None \<Rightarrow> black),
                       backgroundColor =
                         (case params_backgroundColor params of Some c \<Rightarrow> c | None \<Rightarrow> white),
                       margin = m,
                       quietZone = qz,
                       charsetSource = string_or (params_charsetSource params) (js ''UTF-8''),
                       charsetTarget = string_or (params_charsetTarget params) (js ''UTF-8'')\<rparr>
           in case validateConfiguration this of
                Inl e \<Rightarrow> Inl e
              | Inr warnings \<Rightarrow> Inr (this, warnings))))"

definition getHashKey :: "QRCodeConfiguration \<Rightarrow> jsstring" where
  "getHashKey c =
     (let components =
            [content (data c),
             Size_toString (size' c),
             OutputFormat_toString (format c),
             ErrorCorrectionLevel_toString (errorCorrectionLevel c),
             toHex (foregroundColor c),
             toHex (backgroundColor c),
             int_toString 10 (margin c),
             int_toString 10 (quietZone c),
             charsetSource c,
             charsetTarget c]
      in toString_base64 (Buffer_from (join (js ''|'') components)))"


section \<open>InMemoryCacheRepository\<close>

text \<open>
  The cached artifact (the class \<open>QRCode\<close>) is opaque to the cache: a type parameter
  \<open>'q\<close>. Times are the milliseconds \<open>Date.now()\<close> returns; every operation takes the
  clock reading \<open>now\<close> as an argument. A TTL is a whole number of seconds.
\<close>

record 'q CacheEntry =
  qrCode :: 'q
  expiresAt :: int
  createdAt :: int

text \<open>
  A JavaScript \<open>Map\<close> iterates in insertion order, and the eviction scan depends on that
  order: the map is a list of key-entry pairs with distinct keys. \<open>Map.set\<close> on a key that
  is present replaces the entry where it stands; a new key goes to the end.
\<close>

type_synonym 'q entries = "(jsstring \<times> 'q CacheEntry) list"

fun Map_set :: "jsstring \<Rightarrow> 'q CacheEntry \<Rightarrow> 'q entries \<Rightarrow> 'q entries" where
  "Map_set k e [] = [(k, e)]"
| "Map_set k e ((k', e') # rest) =
     (if k' = k then (k, e) # rest else (k', e') # Map_set k e rest)"

definition Map_delete :: "jsstring \<Rightarrow> 'q entries \<Rightarrow> 'q entries" where
  "Map_delete k m = filter (\<lambda>(k', e). k' \<noteq> k) m"

text \<open>The keys in iteration order.\<close>

definition keys :: "'q entries \<Rightarrow> jsstring list" where
  "keys m = map fst m"

definition Map_has :: "jsstring \<Rightarrow> 'q entries \<Rightarrow> bool" where
  "Map_has k m \<longleftrightarrow> map_of m k \<noteq> None"

text \<open>The counters of the field \<open>stats\<close> are fields of the repository record.\<close>

record 'q InMemoryCacheRepository =
  cache :: "'q entries"
  hits :: nat
  misses :: nat
  sets :: nat
  deletes :: nat
  maxKeys :: int
  defaultTTL :: int

definition InMemoryCacheRepository_new :: "int \<Rightarrow> int \<Rightarrow> 'q InMemoryCacheRepository" where
  "InMemoryCacheRepository_new mk ttl =
     \<lparr>cache = [], hits = 0, misses = 0, sets = 0, deletes = 0, maxKeys = mk, defaultTTL = ttl\<rparr>"

definition cache_get ::
    "int \<Rightarrow> jsstring \<Rightarrow> 'q InMemoryCacheRepository \<Rightarrow> 'q option \<times> 'q InMemoryCacheRepository" where
  "cache_get now key s =
     (case map_of (cache s) key of
        None \<Rightarrow> (None, s\<lparr>misses := misses s + 1\<rparr>)
      | Some entry \<Rightarrow>
          if now > expiresAt entry
          then (None, s\<lparr>cache := Map_delete key (cache s), misses := misses s + 1\<rparr>)
          else (Some (qrCode entry), s\<lparr>hits := hits s + 1\<rparr>))"

text \<open>
  The scan of \<open>evictOldest\<close>: \<open>oldestTime\<close> starts at \<open>Infinity\<close> (here \<open>None\<close>), and an
  entry replaces the candidate when its \<open>createdAt\<close> is strictly smaller.
\<close>

fun evict_scan ::
    "'q entries \<Rightarrow> jsstring option \<times> int option \<Rightarrow> jsstring option \<times> int option" where
  "evict_scan [] acc = acc"
| "evict_scan ((key, entry) # rest) (oldestKey, oldestTime) =
     (if (case oldestTime of None \<Rightarrow> True | Some t \<Rightarrow> createdAt entry < t)
      then evict_scan rest (Some key, Some (createdAt entry))
      else evict_scan rest (oldestKey, oldestTime))"

text \<open>\<open>if (oldestKey)\<close> tests truthiness: \<open>null\<close> and the empty string are both falsy.\<close>

definition evictOldest :: "'q entries \<Rightarrow> 'q entries" where
  "evictOldest m =
     (case fst (evict_scan m (None, None)) of
        None \<Rightarrow> m
      | Some oldestKey \<Rightarrow> if oldestKey \<noteq> [] then Map_delete oldestKey m else m)"

text \<open>\<open>ttlSeconds || this.defaultTTL\<close>: an absent or zero TTL is replaced by the default.\<close>

definition ttl_or :: "int option \<Rightarrow> int \<Rightarrow> int" where
  "ttl_or ttlSeconds dflt =
     (case ttlSeconds of None \<Rightarrow> dflt | Some t \<Rightarrow> if t = 0 then dflt else t)"

definition cache_set ::
    "int \<Rightarrow> jsstring \<Rightarrow> 'q \<Rightarrow> int option \<Rightarrow> 'q InMemoryCacheRepository
       \<Rightarrow> 'q InMemoryCacheRepository" where
  "cache_set now key q ttlSeconds s =
     (let ttl = ttl_or ttlSeconds (defaultTTL s) * 1000;
          m = (if int (length (cache s)) \<ge> maxKeys s \<and> \<not> Map_has key (cache s)
               then evictOldest (cache s) else cache s);
          entry = \<lparr>qrCode = q, expiresAt = now + ttl, createdAt = now\<rparr>
      in s\<lparr>cache := Map_set key entry m, sets := sets s + 1\<rparr>)"

definition cache_delete :: "jsstring \<Rightarrow> 'q InMemoryCacheRepository \<Rightarrow> 'q InMemoryCacheRepository" where
  "cache_delete key s =
     (if Map_has key (cache s)
      then s\<lparr>cache := Map_delete key (cache s), deletes := deletes s + 1\<rparr>
      else s)"

definition cache_clear :: "'q InMemoryCacheRepository \<Rightarrow> 'q InMemoryCacheRepository" where
  "cache_clear s = s\<lparr>cache := [], hits := 0, misses := 0, sets := 0, deletes := 0\<rparr>"

definition cache_exists ::
    "int \<Rightarrow> jsstring \<Rightarrow> 'q InMemoryCacheRepository \<Rightarrow> bool \<times> 'q InMemoryCacheRepository" where
  "cache_exists now key s =
     (case map_of (cache s) key of
        None \<Rightarrow> (False, s)
      | Some entry \<Rightarrow>
          if now > expiresAt entry then (False, s\<lparr>cache := Map_delete key (cache s)\<rparr>)
          else (True, s))"

definition cleanup :: "int \<Rightarrow> 'q InMemoryCacheRepository \<Rightarrow> 'q InMemoryCacheRepository" where
  "cleanup now s = s\<lparr>cache := filter (\<lambda>(k, e). \<not> now > expiresAt e) (cache s)\<rparr>"

text \<open>A sequence of calls on the repository, each with the clock reading at the call.\<close>

datatype 'q cache_op =
    Set int jsstring 'q "int option"
  | Delete jsstring
  | Clear

fun apply_op :: "'q cache_op \<Rightarrow> 'q InMemoryCacheRepository \<Rightarrow> 'q InMemoryCacheRepository" where
  "apply_op (Set now key q ttl) s = cache_set now key q ttl s"
| "apply_op (Delete key) s = cache_delete key s"
| "apply_op Clear s = cache_clear s"

fun apply_ops :: "'q cache_op list \<Rightarrow> 'q InMemoryCacheRepository \<Rightarrow> 'q InMemoryCacheRepository" where
  "apply_ops [] s = s"
| "apply_ops (x # xs) s = apply_ops xs (apply_op x s)"

text \<open>
  The state the repository keeps when the empty string is never used as a key: distinct
  keys, none of them empty, and at most \<open>maxKeys\<close> entries.
\<close>

definition cache_ok :: "'q InMemoryCacheRepository \<Rightarrow> bool" where
  "cache_ok s \<longleftrightarrow> distinct (keys (cache s)) \<and> [] \<notin> set (keys (cache s))
                 \<and> int (length (cache s)) \<le> maxKeys s"

fun op_key_nonempty :: "'q cache_op \<Rightarrow> bool" where
  "op_key_nonempty (Set now key q ttl) = (key \<noteq> [])"
| "op_key_nonempty _ = True"


section \<open>CacheManagementUseCase\<close>

text \<open>
  The port \<open>ICacheRepository\<close>: any implementation, over any state \<open>'s\<close>. A call returns
  the value of its promise, \<open>Inl\<close> when it rejects or throws, together with the state it
  leaves behind.
\<close>

record ('s, 'q, 'x) ICacheRepository =
  port_get :: "jsstring \<Rightarrow> 's \<Rightarrow> ('x + 'q option) \<times> 's"
  port_set :: "jsstring \<Rightarrow> 'q \<Rightarrow> int \<Rightarrow> 's \<Rightarrow> ('x + unit) \<times> 's"
  port_delete :: "jsstring \<Rightarrow> 's \<Rightarrow> ('x + unit) \<times> 's"
  port_clear :: "'s \<Rightarrow> ('x + unit) \<times> 's"

text \<open>
  The logger keeps the lines it is given. The state of a use-case call is the
  repository's state and the log.
\<close>

datatype log_level = Debug | Info | Warn | Error

type_synonym log = "(log_level \<times> string) list"

definition logger :: "log_level \<Rightarrow> string \<Rightarrow> 's \<times> log \<Rightarrow> 's \<times> log" where
  "logger level line st = (fst st, snd st @ [(level, line)])"

text \<open>\<open>try { body } catch (error) { handler }\<close> on the outcome of the body.\<close>

definition try_catch ::
    "('x + 'a) \<times> 't \<Rightarrow> ('x \<Rightarrow> 't \<Rightarrow> ('x + 'a) \<times> 't) \<Rightarrow> ('x + 'a) \<times> 't" where
  "try_catch body handler =
     (case body of (Inl err, st) \<Rightarrow> handler err st | (Inr v, st) \<Rightarrow> (Inr v, st))"

text \<open>A call of the port inside a use case: the repository state changes, the log stays.\<close>

definition call_port ::
    "('s \<Rightarrow> ('x + 'a) \<times> 's) \<Rightarrow> 's \<times> log \<Rightarrow> ('x + 'a) \<times> ('s \<times> log)" where
  "call_port f st = (case f (fst st) of (res, s') \<Rightarrow> (res, (s', snd st)))"

record ('s, 'q, 'x) CacheManagementUseCase =
  cacheRepository :: "('s, 'q, 'x) ICacheRepository"
  uc_defaultTTL :: int

definition CacheManagementUseCase_get ::
    "('s, 'q, 'x) CacheManagementUseCase \<Rightarrow> jsstring \<Rightarrow> 's \<times> log
       \<Rightarrow> ('x + 'q option) \<times> ('s \<times> log)" where
  "CacheManagementUseCase_get uc key st =
     try_catch
       (case call_port (port_get (cacheRepository uc) key) (logger Debug ''Cache get operation'' st) of
          (Inl err, st1) \<Rightarrow> (Inl err, st1)
        | (Inr cachedQRCode, st1) \<Rightarrow>
            (case cachedQRCode of
               Some q \<Rightarrow> (Inr (Some q), logger Debug ''Cache hit'' st1)
             | None \<Rightarrow> (Inr None, logger Debug ''Cache miss'' st1)))
       (\<lambda>err st1. (Inr None, logger Error ''Cache get operation failed'' st1))"

definition CacheManagementUseCase_set ::
    "('s, 'q, 'x) CacheManagementUseCase \<Rightarrow> jsstring \<Rightarrow> 'q \<Rightarrow> int option \<Rightarrow> 's \<times> log
       \<Rightarrow> ('x + bool) \<times> ('s \<times> log)" where
  "CacheManagementUseCase_set uc key q ttlSeconds st =
     try_catch
       (let ttl = ttl_or ttlSeconds (uc_defaultTTL uc) in
        case call_port (port_set (cacheRepository uc) key q ttl)
               (logger Debug ''Cache set operation'' st) of
          (Inl err, st1) \<Rightarrow> (Inl err, st1)
        | (Inr u, st1) \<Rightarrow> (Inr True, logger Debug ''Cache set successful'' st1))
       (\<lambda>err st1. (Inr False, logger Error ''Cache set operation failed'' st1))"

definition CacheManagementUseCase_delete ::
    "('s, 'q, 'x) CacheManagementUseCase \<Rightarrow> jsstring \<Rightarrow> 's \<times> log
       \<Rightarrow> ('x + bool) \<times> ('s \<times> log)" where
  "CacheManagementUseCase_delete uc key st =
     try_catch
       (case call_port (port_delete (cacheRepository uc) key)
               (logger Debug ''Cache delete operation'' st) of
          (Inl err, st1) \<Rightarrow> (Inl err, st1)
        | (Inr u, st1) \<Rightarrow> (Inr True, logger Debug ''Cache delete successful'' st1))
       (\<lambda>err st1. (Inr False, logger Error ''Cache delete operation failed'' st1))"

definition CacheManagementUseCase_clear ::
    "('s, 'q, 'x) CacheManagementUseCase \<Rightarrow> 's \<times> log \<Rightarrow> ('x + bool) \<times> ('s \<times> log)" where
  "CacheManagementUseCase_clear uc st =
     try_catch
       (case call_port (port_clear (cacheRepository uc))
               (logger Info ''Cache clear operation started'' st) of
          (Inl err, st1) \<Rightarrow> (Inl err, st1)
        | (Inr u, st1) \<Rightarrow> (Inr True, logger Info ''Cache clear successful'' st1))
       (\<lambda>err st1. (Inr False, logger Error ''Cache clear operation failed'' st1))"

text \<open>
  \<open>InMemoryCacheRepository\<close> as an implementation of the port, at clock reading \<open>now\<close>.
  None of its methods throws.
\<close>

definition InMemory_port ::
    "int \<Rightarrow> ('q InMemoryCacheRepository, 'q, 'x) ICacheRepository" where
  "InMemory_port now =
     \<lparr>port_get = (\<lambda>key s. case cache_get now key s of (res, s') \<Rightarrow> (Inr res, s')),
      port_set = (\<lambda>key q ttl s. (Inr (), cache_set now key q (Some ttl) s)),
      port_delete = (\<lambda>key s. (Inr (), cache_delete key s)),
      port_clear = (\<lambda>s. (Inr (), cache_clear s))\<rparr>"


section \<open>ValidationResult\<close>

datatype ValidationErrorType =
  INVALID_FORMAT | OUT_OF_RANGE | REQUIRED_FIELD | INVALID_VALUE | CONSTRAINT_VIOLATION

text \<open>The objects the use case stores in the field \<open>value\<close> of an error.\<close>

datatype offending_value =
    StringValue jsstring
  | NumberValue number
  | LogoValue jsstring "number option" "number option"
  | ContrastValue jsstring jsstring real
  | LogoSizeValue number jsstring int

text \<open>
  The interface \<open>ValidationError\<close>; its fields \<open>field\<close>, \<open>message\<close>, \<open>type\<close> and \<open>value\<close>
  are prefixed by \<open>err\<close>. An absent \<open>value\<close> is \<open>None\<close>.
\<close>

record ValidationError =
  err_field :: string
  err_message :: jsstring
  err_type :: ValidationErrorType
  err_value :: "offending_value option"

record ValidationResult =
  isValidFlag :: bool
  errors :: "ValidationError list"

definition success :: ValidationResult where
  "success = \<lparr>isValidFlag = True, errors = []\<rparr>"

definition failure :: "ValidationError list \<Rightarrow> ValidationResult" where
  "failure errs = \<lparr>isValidFlag = False, errors = errs\<rparr>"

definition single :: "ValidationError \<Rightarrow> ValidationResult" where
  "single e = \<lparr>isValidFlag = False, errors = [e]\<rparr>"

definition isValid :: "ValidationResult \<Rightarrow> bool" where
  "isValid v = isValidFlag v"

definition getErrors :: "ValidationResult \<Rightarrow> ValidationError list" where
  "getErrors v = errors v"

section \<open>ValidateParametersUseCase\<close>

text \<open>
  The request. Its fields are prefixed by \<open>req\<close>; a field the caller left out is \<open>None\<close>.
  The field \<open>data\<close> is required by its type, and still absent when the caller sends none.
\<close>

record QRCodeRequestDTO =
  req_data :: "jsstring option"
  req_size :: "jsstring option"
  req_format :: "jsstring option"
  req_ecc :: "jsstring option"
  req_color :: "jsstring option"
  req_bgcolor :: "jsstring option"
  req_margin :: "number option"
  req_qzone :: "number option"
  req_charset_source :: "jsstring option"
  req_charset_target :: "jsstring option"
  req_logo :: "jsstring option"
  req_logo_size :: "number option"
  req_logo_margin :: "number option"

text \<open>Truthiness of an optional string and of an optional number.\<close>

definition truthy :: "jsstring option \<Rightarrow> bool" where
  "truthy s \<longleftrightarrow> (case s of None \<Rightarrow> False | Some v \<Rightarrow> v \<noteq> [])"

definition truthy_number :: "number option \<Rightarrow> bool" where
  "truthy_number n \<longleftrightarrow> (case n of None \<Rightarrow> False | Some v \<Rightarrow> number_truthy v)"

definition validateData :: "url_parser \<Rightarrow> jsstring option \<Rightarrow> ValidationResult" where
  "validateData new_URL d =
     (if \<not> truthy d
      then single \<lparr>err_field = ''data'', err_message = js ''Data field is required'',
                   err_type = REQUIRED_FIELD, err_value = None\<rparr>
      else (case DataPayload_create new_URL (the d) of
              Inr p \<Rightarrow> success
            | Inl e \<Rightarrow> single \<lparr>err_field = ''data'', err_message = message e,
                                err_type = INVALID_VALUE, err_value = Some (StringValue (the d))\<rparr>))"

definition validateSize :: "jsstring \<Rightarrow> ValidationResult" where
  "validateSize s =
     (case Size_fromString s of
        Inr v \<Rightarrow> success
      | Inl e \<Rightarrow> single \<lparr>err_field = ''size'', err_message = message e,
                          err_type = INVALID_FORMAT, err_value = Some (StringValue s)\<rparr>)"

definition validateFormat :: "jsstring \<Rightarrow> ValidationResult" where
  "validateFormat f =
     (case OutputFormatValue_create f of
        Inr v \<Rightarrow> success
      | Inl e \<Rightarrow> single \<lparr>err_field = ''format'', err_message = message e,
                          err_type = INVALID_VALUE, err_value = Some (StringValue f)\<rparr>)"

definition validateErrorCorrectionLevel :: "jsstring \<Rightarrow> ValidationResult" where
  "validateErrorCorrectionLevel ecc =
     (case ErrorCorrectionLevelValue_create ecc of
        Inr v \<Rightarrow> success
      | Inl e \<Rightarrow> single \<lparr>err_field = ''ecc'', err_message = message e,
                          err_type = INVALID_VALUE, err_value = Some (StringValue ecc)\<rparr>)"

definition validateColor :: "jsstring \<Rightarrow> string \<Rightarrow> ValidationResult" where
  "validateColor color fld =
     (case ColorValue_create color of
        Inr v \<Rightarrow> success
      | Inl e \<Rightarrow> single \<lparr>err_field = fld, err_message = message e,
                          err_type = INVALID_FORMAT, err_value = Some (StringValue color)\<rparr>)"

definition uc_validateMargin :: "number \<Rightarrow> ValidationResult" where
  "uc_validateMargin n =
     (if \<not> Number_isInteger n \<or> number_lt n 0 \<or> number_gt n 50
      then single \<lparr>err_field = ''margin'',
                   err_message = js ''Margin must be an integer between 0 and 50 pixels'',
                   err_type = OUT_OF_RANGE, err_value = Some (NumberValue n)\<rparr>
      else success)"

definition uc_validateQuietZone :: "number \<Rightarrow> ValidationResult" where
  "uc_validateQuietZone n =
     (if \<not> Number_isInteger n \<or> number_lt n 0 \<or> number_gt n 100
      then single \<lparr>err_field = ''qzone'',
                   err_message = js ''Quiet zone must be an integer between 0 and 100 modules'',
                   err_type = OUT_OF_RANGE, err_value = Some (NumberValue n)\<rparr>
      else success)"

definition validateCharset :: "jsstring \<Rightarrow> string \<Rightarrow> ValidationResult" where
  "validateCharset charset fld =
     (if charset \<notin> set supportedCharsets
      then single \<lparr>err_field = fld,
                   err_message = js ''Unsupported charset: '' @ charset
                                   @ js ''. Supported: UTF-8, ISO-8859-1'',
                   err_type = INVALID_VALUE, err_value = Some (StringValue charset)\<rparr>
      else success)"

definition validateColorContrast :: "jsstring \<Rightarrow> jsstring \<Rightarrow> ValidationResult" where
  "validateColorContrast color bgcolor =
     (case ColorValue_create color of
        Inl e \<Rightarrow> success
      | Inr foreground \<Rightarrow>
     (case ColorValue_create bgcolor of
        Inl e \<Rightarrow> success
      | Inr background \<Rightarrow>
          if \<not> hasAccessibleContrast foreground background
          then single
                 \<lparr>err_field = ''color_contrast'',
                  err_message =
                    js ''Color combination may not meet WCAG AA accessibility standards (contrast ratio < 4.5:1)'',
                  err_type = CONSTRAINT_VIOLATION,
                  err_value = Some (ContrastValue color bgcolor
                                      (getContrastRatio foreground background))\<rparr>
          else success))"

definition validateLogo ::
    "url_parser \<Rightarrow> jsstring \<Rightarrow> number option \<Rightarrow> number option \<Rightarrow> ValidationResult" where
  "validateLogo new_URL logo logoSize logoMargin =
     (case Logo_create new_URL logo logoSize logoMargin of
        Inr v \<Rightarrow> success
      | Inl e \<Rightarrow> single \<lparr>err_field = ''logo'', err_message = message e,
                          err_type = INVALID_VALUE,
                          err_value = Some (LogoValue logo logoSize logoMargin)\<rparr>)"

text \<open>
  \<open>qrCodeSize * 0.3\<close> is a double product in the source and a real product here. For an
  integral logo size the comparison has the same outcome: the product of an integer up
  to 1000 and the double nearest to 0.3 rounds to the exact product when that is an
  integer, and is otherwise at least a tenth away from every integer.
\<close>

definition validateLogoSizeRelativeToQR :: "jsstring \<Rightarrow> number \<Rightarrow> ValidationResult" where
  "validateLogoSizeRelativeToQR qrSize logoSize =
     (case Size_fromString qrSize of
        Inl e \<Rightarrow> success
      | Inr sz \<Rightarrow>
          (let qrCodeSize = min (width sz) (height sz);
               maxLogoSize = real_of_int qrCodeSize * 0.3
           in if number_gt logoSize maxLogoSize
              then single
                     \<lparr>err_field = ''logo_size'',
                      err_message =
                        js ''Logo size ('' @ Number_toString logoSize
                          @ js ''px) is too large for QR code size ('' @ qrSize
                          @ js ''). Maximum allowed size is ''
                          @ int_toString 10 \<lfloor>maxLogoSize\<rfloor> @ js ''px (30% of QR code size)'',
                      err_type = CONSTRAINT_VIOLATION,
                      err_value = Some (LogoSizeValue logoSize qrSize \<lfloor>maxLogoSize\<rfloor>)\<rparr>
              else success))"

text \<open>
  \<open>if (!v.isValid()) errors.push(...v.getErrors())\<close>: the step that \<open>execute\<close> repeats after
  each check, on the list \<open>errors\<close> it carries.
\<close>

definition push_errors :: "ValidationResult \<Rightarrow> ValidationError list \<Rightarrow> ValidationError list" where
  "push_errors v errs = (if \<not> isValid v then errs @ getErrors v else errs)"

definition ValidateParametersUseCase_execute ::
    "url_parser \<Rightarrow> QRCodeRequestDTO \<Rightarrow> ValidationResult" where
  "ValidateParametersUseCase_execute new_URL request =
     (let errs = [];
          errs = push_errors (validateData new_URL (req_data request)) errs;
          errs = (if truthy (req_size request)
                  then push_errors (validateSize (the (req_size request))) errs else errs);
          errs = (if truthy (req_format request)
                  then push_errors (validateFormat (the (req_format request))) errs else errs);
          errs = (if truthy (req_ecc request)
                  then push_errors (validateErrorCorrectionLevel (the (req_ecc request))) errs
                  else errs);
          errs = (if truthy (req_color request)
                  then push_errors (validateColor (the (req_color request)) ''color'') errs
                  else errs);
          errs = (if truthy (req_bgcolor request)
                  then push_errors (validateColor (the (req_bgcolor request)) ''bgcolor'') errs
                  else errs);
          errs = (if req_margin request \<noteq> None
                  then push_errors (uc_validateMargin (the (req_margin request))) errs
                  else errs);
          errs = (if req_qzone request \<noteq> None
                  then push_errors (uc_validateQuietZone (the (req_qzone request))) errs
                  else errs);
          errs = (if truthy (req_charset_source request)
                  then push_errors
                         (validateCharset (the (req_charset_source request)) ''charset-source'') errs
                  else errs);
          errs = (if truthy (req_charset_target request)
                  then push_errors
                         (validateCharset (the (req_charset_target request)) ''charset-target'') errs
                  else errs);
          errs = (if truthy (req_logo request)
                  then push_errors
                         (validateLogo new_URL (the (req_logo request)) (req_logo_size request)
                            (req_logo_margin request)) errs
                  else errs);
          errs = (if truthy (req_color request) \<and> truthy (req_bgcolor request)
                  then push_errors
                         (validateColorContrast (the (req_color request))
                            (the (req_bgcolor request))) errs
                  else errs);
          errs = (if truthy (req_logo request) \<and> truthy (req_size request)
                     \<and> truthy_number (req_logo_size request)
                  then push_errors
                         (validateLogoSizeRelativeToQR (the (req_size request))
                            (the (req_logo_size request))) errs
                  else errs)
      in if length errs > 0 then failure errs else success)"






section \<open>GenerateQRCodeUseCase\<close>

text \<open>
  \<open>buildConfiguration\<close>: each factory may throw, in the order of the source. An absent
  \<open>data\<close> reaches \<open>DataPayload.create\<close> as \<open>undefined\<close>, which its first test rejects as
  it rejects the empty string. The logo is built, so its errors are thrown, but
  \<open>QRCodeConfiguration\<close> has no field for it.
\<close>

definition buildConfiguration ::
    "url_parser \<Rightarrow> QRCodeRequestDTO \<Rightarrow> error + QRCodeConfiguration \<times> string list" where
  "buildConfiguration new_URL request =
     (case DataPayload_create new_URL (case req_data request of Some d \<Rightarrow> d | None \<Rightarrow> []) of
        Inl e \<Rightarrow> Inl e
      | Inr d \<Rightarrow>
     (case (if truthy (req_size request) then Size_fromString (the (req_size request))
            else Inr Size_default) of
        Inl e \<Rightarrow> Inl e
      | Inr sz \<Rightarrow>
     (case (if truthy (req_format request) then OutputFormatValue_create (the (req_format request))
            else Inr OutputFormatValue_default) of
        Inl e \<Rightarrow> Inl e
      | Inr fmt \<Rightarrow>
     (case (if truthy (req_ecc request)
            then ErrorCorrectionLevelValue_create (the (req_ecc request))
            else Inr ErrorCorrectionLevelValue_default) of
        Inl e \<Rightarrow> Inl e
      | Inr ecl \<Rightarrow>
     (case (if truthy (req_color request) then ColorValue_create (the (req_color request))
            else Inr black) of
        Inl e \<Rightarrow> Inl e
      | Inr fg \<Rightarrow>
     (case (if truthy (req_bgcolor request) then ColorValue_create (the (req_bgcolor request))
            else Inr white) of
        Inl e \<Rightarrow> Inl e
      | Inr bg \<Rightarrow>
     (case (if truthy (req_logo request)
            then map_sum id Some
                   (Logo_create new_URL (the (req_logo request)) (req_logo_size request)
                      (req_logo_margin request))
            else Inr None) of
        Inl e \<Rightarrow> Inl e
      | Inr logo \<Rightarrow>
          QRCodeConfiguration_new
            \<lparr>params_data = d, params_size = Some sz, params_format = Some fmt,
             params_errorCorrectionLevel = Some ecl, params_foregroundColor = Some fg,
             params_backgroundColor = Some bg, params_margin = req_margin request,
             params_quietZone = req_qzone request,
             params_charsetSource = req_charset_source request,
             params_charsetTarget = req_charset_target request\<rparr>)))))))"

text \<open>
  The response: the validation errors, the artifact with the flag \<open>cacheHit\<close>, or the
  error caught by the outer \<open>catch\<close>, thrown by this repository's code or by a
  collaborator. Processing times and metrics are not part of the model.
\<close>

datatype ('q, 'x) QRCodeResponseDTO =
    ValidationErrorResponse "ValidationError list"
  | SuccessResponse 'q bool
  | GenerationErrorResponse "error + 'x"

text \<open>
  The generator is the external renderer. The cache is populated right after rendering:
  the call \<open>this.cacheManagementUseCase.set(cacheKey, qrCode)\<close> has two arguments, so the
  use case's \<open>ttlSeconds\<close> is \<open>undefined\<close>. The source does not await that call; the model
  runs it to its end before the response is returned, and one clock reading serves the
  whole request.
\<close>

definition GenerateQRCodeUseCase_execute ::
    "url_parser \<Rightarrow> (QRCodeConfiguration \<Rightarrow> 'x + 'q) \<Rightarrow> ('s, 'q, 'x) CacheManagementUseCase
       \<Rightarrow> QRCodeRequestDTO \<Rightarrow> 's \<times> log \<Rightarrow> ('q, 'x) QRCodeResponseDTO \<times> ('s \<times> log)" where
  "GenerateQRCodeUseCase_execute new_URL generate cacheManagementUseCase request st0 =
     (let st = logger Info ''QR Code generation started'' st0;
          validation = ValidateParametersUseCase_execute new_URL request
      in if \<not> isValid validation then (ValidationErrorResponse (getErrors validation), st)
         else
           (case buildConfiguration new_URL request of
              Inl e \<Rightarrow> (GenerationErrorResponse (Inl e), logger Error ''QR Code generation failed'' st)
            | Inr (configuration, warnings) \<Rightarrow>
                (let cacheKey = getHashKey configuration in
                 case CacheManagementUseCase_get cacheManagementUseCase cacheKey st of
                   (Inl x, st1) \<Rightarrow>
                     (GenerationErrorResponse (Inr x), logger Error ''QR Code generation failed'' st1)
                 | (Inr (Some cachedQRCode), st1) \<Rightarrow>
                     (SuccessResponse cachedQRCode True, logger Info ''QR Code served from cache'' st1)
                 | (Inr None, st1) \<Rightarrow>
                     (case generate configuration of
                        Inl x \<Rightarrow>
                          (GenerationErrorResponse (Inr x),
                           logger Error ''QR Code generation failed'' st1)
                      | Inr artifact \<Rightarrow>
                          (case CacheManagementUseCase_set cacheManagementUseCase cacheKey artifact
                                  None st1 of
                             (Inl x, st2) \<Rightarrow>
                               (SuccessResponse artifact False,
                                logger Info ''QR Code generated successfully''
                                  (logger Warn ''Failed to cache QR code'' st2))
                           | (Inr ok, st2) \<Rightarrow>
                               (SuccessResponse artifact False,
                                logger Info ''QR Code generated successfully'' st2))))))"

text \<open>
  The specification's notion of a complex configuration: the payload's complexity tier
  is high, or the canvas is wider than a threshold, or the error-correction level is the
  highest. The source has no such predicate; the threshold is a parameter.
\<close>

definition spec_isComplex :: "int \<Rightarrow> QRCodeConfiguration \<Rightarrow> bool" where
  "spec_isComplex threshold c \<longleftrightarrow>
     getComplexityLevel (data c) = high \<or> width (size' c) > threshold
     \<or> errorCorrectionLevel c = HIGH"

text \<open>The time to live of a stored entry, in milliseconds.\<close>

definition entry_ttl :: "'q CacheEntry \<Rightarrow> int" where
  "entry_ttl e = expiresAt e - createdAt e"


section \<open>Sample collaborators\<close>

text \<open>A URL parser that throws on every input, for inputs that never reach the parser.\<close>

definition reject_every_URL :: url_parser where
  "reject_every_URL s = None"

text \<open>A repository every call of which throws, leaving its state as it was.\<close>

definition failing_repository :: "(unit, nat, string) ICacheRepository" where
  "failing_repository =
     \<lparr>port_get = (\<lambda>key s. (Inl ''connection lost'', s)),
      port_set = (\<lambda>key q ttl s. (Inl ''connection lost'', s)),
      port_delete = (\<lambda>key s. (Inl ''connection lost'', s)),
      port_clear = (\<lambda>s. (Inl ''connection lost'', s))\<rparr>"

text \<open>The parameter object that gives only the data: every other field takes its default.\<close>

definition only_data :: "DataPayload \<Rightarrow> QRCodeConfigurationParams" where
  "only_data d =
     \<lparr>params_data = d, params_size = None, params_format = None,
      params_errorCorrectionLevel = None, params_foregroundColor = None,
      params_backgroundColor = None, params_margin = None, params_quietZone = None,
      params_charsetSource = None, params_charsetTarget = None\<rparr>"

text \<open>A request with no field, and one with three violations: no data, a malformed size,
  a margin out of range.\<close>

definition empty_request :: QRCodeRequestDTO where
  "empty_request =
     \<lparr>req_data = None, req_size = None, req_format = None, req_ecc = None, req_color = None,
      req_bgcolor = None, req_margin = None, req_qzone = None, req_charset_source = None,
      req_charset_target = None, req_logo = None, req_logo_size = None,
      req_logo_margin = None\<rparr>"


text \<open>
  The answers of \<open>new URL\<close> on four overlay addresses; every other string is taken as
  unparsable.
\<close>

definition sample_URL :: url_parser where
  "sample_URL s =
     (if s = js ''http://172.5.5.5/a.png''
      then Some \<lparr>protocol = js ''http:'', hostname = js ''172.5.5.5'', pathname = js ''/a.png''\<rparr>
      else if s = js ''https://10.example.com/logo.svg''
      then Some \<lparr>protocol = js ''https:'', hostname = js ''10.example.com'',
                  pathname = js ''/logo.svg''\<rparr>
      else if s = js ''https://example.com/img/logo.JPG''
      then Some \<lparr>protocol = js ''https:'', hostname = js ''example.com'',
                  pathname = js ''/img/logo.JPG''\<rparr>
      else if s = js ''http://localhost/x.png''
      then Some \<lparr>protocol = js ''http:'', hostname = js ''localhost'', pathname = js ''/x.png''\<rparr>
      else None)"

text \<open>
  Two configurations with every default, whose payloads are a lone high surrogate
  each: U+D800 and U+D801.
\<close>

definition surrogate_config :: "16 word \<Rightarrow> QRCodeConfiguration" where
  "surrogate_config c =
     \<lparr>data = \<lparr>content = [c]\<rparr>, size' = \<lparr>width = 200, height = 200\<rparr>, format = PNG,
      errorCorrectionLevel = LOW, foregroundColor = \<lparr>r = 0, g = 0, b = 0\<rparr>,
      backgroundColor = \<lparr>r = 255, g = 255, b = 255\<rparr>, margin = 1, quietZone = 0,
      charsetSource = js ''UTF-8'', charsetTarget = js ''UTF-8''\<rparr>"

text \<open>
  A renderer whose artifact is the configuration it was given, a cache use case over an
  in-memory repository read at time \<open>now\<close>, with the default TTL of one hour, and two
  requests: one with the highest error-correction level, one with every default.
\<close>

definition sample_generator :: "QRCodeConfiguration \<Rightarrow> string + QRCodeConfiguration" where
  "sample_generator c = Inr c"

definition sample_cache ::
    "int \<Rightarrow> (QRCodeConfiguration InMemoryCacheRepository, QRCodeConfiguration, string)
              CacheManagementUseCase" where
  "sample_cache now = \<lparr>cacheRepository = InMemory_port now, uc_defaultTTL = 3600\<rparr>"

definition request_H :: QRCodeRequestDTO where
  "request_H = empty_request\<lparr>req_data := Some (js ''hi''), req_ecc := Some (js ''H'')\<rparr>"

definition request_L :: QRCodeRequestDTO where
  "request_L = empty_request\<lparr>req_data := Some (js ''hi'')\<rparr>"

text \<open>
  A request served at time 0 on an empty repository of 1000 keys, and the times to live
  of the entries a repository holds.
\<close>

definition serve_on_empty_cache ::
    "QRCodeRequestDTO \<Rightarrow> (QRCodeConfiguration, string) QRCodeResponseDTO
        \<times> (QRCodeConfiguration InMemoryCacheRepository \<times> log)" where
  "serve_on_empty_cache request =
     GenerateQRCodeUseCase_execute reject_every_URL sample_generator (sample_cache 0) request
       (InMemoryCacheRepository_new 1000 3600, [])"

definition stored_ttls :: "'q InMemoryCacheRepository \<Rightarrow> int list" where
  "stored_ttls s = map (\<lambda>(k, e). entry_ttl e) (cache s)"

definition config_of :: "ErrorCorrectionLevel \<Rightarrow> QRCodeConfiguration" where
  "config_of level =
     \<lparr>data = \<lparr>content = js ''hi''\<rparr>, size' = \<lparr>width = 200, height = 200\<rparr>, format = PNG,
      errorCorrectionLevel = level, foregroundColor = \<lparr>r = 0, g = 0, b = 0\<rparr>,
      backgroundColor = \<lparr>r = 255, g = 255, b = 255\<rparr>, margin = 1, quietZone = 0,
      charsetSource = js ''UTF-8'', charsetTarget = js ''UTF-8''\<rparr>"


section \<open>Facts about the JavaScript primitives\<close>

lemma is_digit_10_range: "is_digit 10 c \<longleftrightarrow> 0x30 \<le> c \<and> c \<le> 0x39"
  by (auto simp: is_digit_def digit_value_def word_le_nat_alt split: option.splits if_splits)

lemma is_digit_10_plain:
  assumes "is_digit 10 c"
  shows "\<not> isWhiteSpace c" "c \<noteq> 0x2D" "c \<noteq> 0x2B" "c \<noteq> 0x78" "c \<noteq> 0x58"
  using assms unfolding is_digit_10_range isWhiteSpace_def
  by (auto simp: word_le_nat_alt)

lemma parseInt_digits:
  assumes "ds \<noteq> []" "list_all (is_digit 10) ds"
  shows "parseInt ds 10 = number_of_nat False (digits_value 10 0 ds)"
proof -
  obtain c cs where ds: "ds = c # cs" using assms(1) by (cases ds) auto
  have c: "is_digit 10 c" using assms(2) ds by simp
  have tw: "takeWhile (is_digit 10) ds = ds"
    using assms(2) by (simp add: list_all_iff)
  show ?thesis
    using is_digit_10_plain[OF c] tw ds
    by (simp add: parseInt_def Let_def)
qed

lemmas js_eval =
  js_def isWhiteSpace_def startsWith_def endsWith_def is_digit_def digit_value_def
  number_of_nat_def parseInt_def trim_def Let_def

section \<open>Size\<close>

lemma Size_match_digits:
  assumes "ds1 \<noteq> []" "list_all (is_digit 10) ds1" "ds2 \<noteq> []" "list_all (is_digit 10) ds2"
    and "c = 0x78 \<or> c = 0x58"
  shows "Size_match (ds1 @ c # ds2) = Some (ds1, ds2)"
proof -
  have nd: "\<not> is_digit 10 c" using assms(5) by (auto simp: is_digit_10_range)
  have all1: "\<And>x. x \<in> set ds1 \<Longrightarrow> is_digit 10 x" using assms(2) by (simp add: list_all_iff)
  have tw: "takeWhile (is_digit 10) (ds1 @ c # ds2) = ds1"
    using all1 nd by (simp add: takeWhile_append2)
  have dw: "dropWhile (is_digit 10) (ds1 @ c # ds2) = c # ds2"
    using all1 nd by (simp add: dropWhile_append2)
  show ?thesis using assms tw dw by (simp add: Size_match_def)
qed

lemma Size_create_nat:
  "Size_create (number_of_nat False m) (number_of_nat False n) = Inr s \<longleftrightarrow>
     10 \<le> m \<and> m \<le> 1000 \<and> 10 \<le> n \<and> n \<le> 1000 \<and> s = \<lparr>width = int m, height = int n\<rparr>"
  by (auto simp: Size_create_def number_of_nat_def)

lemma Size_create_int:
  "Size_create (Finite (of_int w)) (Finite (of_int h)) = Inr s \<longleftrightarrow>
     10 \<le> w \<and> w \<le> 1000 \<and> 10 \<le> h \<and> h \<le> 1000 \<and> s = \<lparr>width = w, height = h\<rparr>"
  by (auto simp: Size_create_def)

lemma Size_create_range:
  assumes "Size_create n1 n2 = Inr t"
  shows "10 \<le> width t \<and> width t \<le> 1000 \<and> 10 \<le> height t \<and> height t \<le> 1000"
proof -
  from assms obtain x y where xy: "n1 = Finite x" "n2 = Finite y"
    by (cases n1; cases n2) (auto simp: Size_create_def)
  from assms xy have bounds: "x \<in> \<int>" "y \<in> \<int>" "10 \<le> x" "x \<le> 1000" "10 \<le> y" "y \<le> 1000"
    and t: "t = \<lparr>width = \<lfloor>x\<rfloor>, height = \<lfloor>y\<rfloor>\<rparr>"
    by (auto simp: Size_create_def split: if_splits)
  show ?thesis using bounds t by (auto simp: le_floor_iff floor_le_iff)
qed

lemma Size_fromString_range:
  assumes "Size_fromString str = Inr t"
  shows "10 \<le> width t \<and> width t \<le> 1000 \<and> 10 \<le> height t \<and> height t \<le> 1000"
  using assms Size_create_range
  by (auto simp: Size_fromString_def split: option.splits prod.splits)

lemma Size_fromString_digits:
  assumes "ds1 \<noteq> []" "list_all (is_digit 10) ds1" "ds2 \<noteq> []" "list_all (is_digit 10) ds2"
    and "c = 0x78 \<or> c = 0x58"
  shows "Size_fromString (ds1 @ c # ds2) = Inr s \<longleftrightarrow>
           10 \<le> digits_value 10 0 ds1 \<and> digits_value 10 0 ds1 \<le> 1000 \<and>
           10 \<le> digits_value 10 0 ds2 \<and> digits_value 10 0 ds2 \<le> 1000 \<and>
           s = \<lparr>width = int (digits_value 10 0 ds1), height = int (digits_value 10 0 ds2)\<rparr>"
  by (simp add: Size_fromString_def Size_match_digits[OF assms]
        parseInt_digits[OF assms(1,2)] parseInt_digits[OF assms(3,4)] Size_create_nat)

text \<open>
  C3 (counterexample). The claim says that \<open>Size.create\<close> and \<open>Size.fromString\<close> fail on
  unequal width and height. The code has no such check: \<open>Size.create(200, 300)\<close> returns a
  size that is not square, and \<open>Size.fromString('300x400')\<close> returns width 300 and height
  400, as the repository's own Size tests expect.
\<close>

theorem Size_nonsquare_accepted:
  "Size_create (Finite 200) (Finite 300) = Inr \<lparr>width = 200, height = 300\<rparr>
   \<and> \<not> isSquare \<lparr>width = 200, height = 300\<rparr>
   \<and> Size_fromString (js ''300x400'') = Inr \<lparr>width = 300, height = 400\<rparr>"
  by (simp add: Size_create_def isSquare_def Size_fromString_def Size_match_def js_eval)

text \<open>
  C3 (amended). Size construction checks the range only. For integers \<open>w\<close> and \<open>h\<close>,
  \<open>Size.create(w, h)\<close> succeeds exactly when both lie in [10, 1000], equal or not, and
  then holds \<open>w\<close> and \<open>h\<close>. On a string of digits, \<open>x\<close> or \<open>X\<close>, and digits,
  \<open>Size.fromString\<close> succeeds exactly when both numbers lie in [10, 1000]. Every size that
  \<open>create\<close> or \<open>fromString\<close> returns on any input, and the default size, has width and
  height each in [10, 1000].
\<close>

theorem Size_range_is_the_only_check:
  "(Size_create (Finite (of_int w)) (Finite (of_int h)) = Inr s \<longleftrightarrow>
      10 \<le> w \<and> w \<le> 1000 \<and> 10 \<le> h \<and> h \<le> 1000 \<and> s = \<lparr>width = w, height = h\<rparr>)
   \<and> (ds1 \<noteq> [] \<and> list_all (is_digit 10) ds1 \<and> ds2 \<noteq> [] \<and> list_all (is_digit 10) ds2
        \<and> (c = 0x78 \<or> c = 0x58) \<longrightarrow>
       (Size_fromString (ds1 @ c # ds2) = Inr s' \<longleftrightarrow>
          10 \<le> digits_value 10 0 ds1 \<and> digits_value 10 0 ds1 \<le> 1000 \<and>
          10 \<le> digits_value 10 0 ds2 \<and> digits_value 10 0 ds2 \<le> 1000 \<and>
          s' = \<lparr>width = int (digits_value 10 0 ds1), height = int (digits_value 10 0 ds2)\<rparr>))
   \<and> (Size_create n1 n2 = Inr t \<longrightarrow>
        10 \<le> width t \<and> width t \<le> 1000 \<and> 10 \<le> height t \<and> height t \<le> 1000)
   \<and> (Size_fromString str = Inr t' \<longrightarrow>
        10 \<le> width t' \<and> width t' \<le> 1000 \<and> 10 \<le> height t' \<and> height t' \<le> 1000)
   \<and> width Size_default = 200 \<and> height Size_default = 200"
  using Size_create_int Size_fromString_digits Size_create_range Size_fromString_range
  by (simp add: Size_default_def)

theorem Size_range_is_the_only_check_witness:
  "Size_create (Finite 10) (Finite 1000) = Inr \<lparr>width = 10, height = 1000\<rparr>
   \<and> Size_fromString (js ''640X480'') = Inr \<lparr>width = 640, height = 480\<rparr>
   \<and> Size_create (Finite 10) (Finite 1001) \<noteq> Inr \<lparr>width = 10, height = 1001\<rparr>
   \<and> Size_fromString (js ''9x9'') \<noteq> Inr \<lparr>width = 9, height = 9\<rparr>"
  using Size_range_is_the_only_check [of 10 1000 "\<lparr>width = 10, height = 1000\<rparr>"
      "js ''640''" "js ''480''" "0x58" "\<lparr>width = 640, height = 480\<rparr>"
      "Finite 10" "Finite 1001" "\<lparr>width = 10, height = 1001\<rparr>"
      "js ''9x9''" "\<lparr>width = 9, height = 9\<rparr>"]
  by (simp add: js_eval)

section \<open>DataPayload\<close>

lemma trim_Nil_iff: "trim s = [] \<longleftrightarrow> list_all isWhiteSpace s"
proof (cases "dropWhile isWhiteSpace s")
  case Nil
  have "trim s = []" by (simp add: trim_def Nil)
  moreover have "list_all isWhiteSpace s"
    using Nil by (simp add: dropWhile_eq_Nil_conv list_all_iff)
  ultimately show ?thesis by simp
next
  case (Cons x xs)
  then have "\<not> isWhiteSpace x" "x \<in> set s"
    using hd_dropWhile[of isWhiteSpace s] set_dropWhileD[of x isWhiteSpace s] by auto
  moreover have "x \<in> set (dropWhile isWhiteSpace s)" using Cons by simp
  ultimately show ?thesis
    by (auto simp: trim_def list_all_iff dropWhile_eq_Nil_conv)
qed

lemma DataPayload_create_ok:
  assumes "trim input \<noteq> []" "length input \<le> 900"
    and "DataPayload_isUrl input \<longrightarrow> new_URL input \<noteq> None"
  shows "DataPayload_create new_URL input = Inr \<lparr>content = trim input\<rparr>"
proof -
  have "input \<noteq> []" using assms(1) by (auto simp: trim_def)
  then show ?thesis using assms by (auto simp: DataPayload_create_def)
qed

lemma DataPayload_create_too_long:
  assumes "trim input \<noteq> []" "length input > 900"
  shows "DataPayload_create new_URL input = Inl DataTooLong"
proof -
  have "input \<noteq> []" using assms(1) by (auto simp: trim_def)
  then show ?thesis using assms by (auto simp: DataPayload_create_def)
qed

lemma DataPayload_create_blank:
  assumes "trim input = []"
  shows "DataPayload_create new_URL input = Inl DataEmpty"
  using assms by (simp add: DataPayload_create_def)

lemma DataPayload_isUrl_hd:
  "DataPayload_isUrl s \<Longrightarrow> s \<noteq> [] \<and> (hd s = 0x68 \<or> hd s = 0x66)"
  by (cases s) (auto simp: DataPayload_isUrl_def startsWith_def js_def)

lemma not_isUrl_replicate_a: "\<not> DataPayload_isUrl (replicate n 0x61)"
  using DataPayload_isUrl_hd[of "replicate n 0x61"] by (cases n) auto

text \<open>
  C9 (counterexample). The claim says that every input of 901 or more characters fails
  with the exceeded-length error. An input of 901 spaces fails with the empty-content
  error instead: the emptiness check runs first.
\<close>

theorem DataPayload_blank_901_is_empty_error:
  "length (replicate 901 (0x20 :: 16 word)) = 901
   \<and> DataPayload_create reject_every_URL (replicate 901 0x20) = Inl DataEmpty
   \<and> DataPayload_create reject_every_URL (replicate 901 0x20) \<noteq> Inl DataTooLong"
  by (simp add: DataPayload_create_def trim_def isWhiteSpace_def)

text \<open>
  C9 (amended). \<open>DataPayload.create\<close> succeeds, holding the trimmed input, for every input
  that is non-empty after trimming, has length at most 900 and, when it starts with
  \<open>http://\<close>, \<open>https://\<close> or \<open>ftp://\<close>, is accepted by the URL parser; so an input of exactly
  900 characters succeeds under these conditions. Every input of 901 or more characters
  that is not white space only fails with the exceeded-length error, whose message names
  the 900-character limit. Empty and white-space-only input of any length fails with the
  empty-content error, before the length check.
\<close>

theorem DataPayload_create_cases:
  "(trim input \<noteq> [] \<and> length input \<le> 900
      \<and> (DataPayload_isUrl input \<longrightarrow> new_URL input \<noteq> None)
      \<longrightarrow> DataPayload_create new_URL input = Inr \<lparr>content = trim input\<rparr>)
   \<and> (trim input \<noteq> [] \<and> length input \<ge> 901
      \<longrightarrow> DataPayload_create new_URL input = Inl DataTooLong
          \<and> message DataTooLong = js ''Data content cannot exceed 900 characters'')
   \<and> (trim input = [] \<longrightarrow> DataPayload_create new_URL input = Inl DataEmpty)"
  using DataPayload_create_ok DataPayload_create_too_long DataPayload_create_blank
  by simp

theorem DataPayload_create_cases_witness:
  "DataPayload_create reject_every_URL (replicate 900 0x61)
     = Inr \<lparr>content = replicate 900 0x61\<rparr>
   \<and> DataPayload_create reject_every_URL (replicate 901 0x61) = Inl DataTooLong
   \<and> DataPayload_create reject_every_URL (replicate 5 0x20) = Inl DataEmpty"
  using DataPayload_create_cases [of "replicate 900 0x61" reject_every_URL]
    DataPayload_create_cases [of "replicate 901 0x61" reject_every_URL]
    DataPayload_create_cases [of "replicate 5 0x20" reject_every_URL]
  by (simp add: trim_def isWhiteSpace_def not_isUrl_replicate_a)

section \<open>QRCodeConfiguration\<close>

lemmas cfg_eval = QRCodeConfiguration_new_def only_data_def validateMargin_def validateQuietZone_def
  validateConfiguration_def isCompatibleWithCharset_def toUpperCase_def string_or_def supportedCharsets_def
  hasAccessibleContrast_def getContrastRatio_def getLuminance_def sRGB_def black_def white_def
  Size_default_def OutputFormatValue_default_def ErrorCorrectionLevelValue_default_def js_def Let_def

lemmas hash_eval = getHashKey_def Size_toString_def toHex_def padStart2_def int_toString_def
  digits_of.simps digit_char_def
  is_high_surrogate_def is_low_surrogate_def utf8_1_def utf8_2_def utf8_3_def utf8_4_def base64_char_def js_def Let_def

text \<open>
  C4. Let the margin and the quiet zone of the parameters be absent or integers in range,
  the two charsets (after the default \<open>UTF-8\<close>) be supported, and the data be compatible
  with the source charset. Then for every foreground and background colour the
  constructor succeeds and keeps both colours; the contrast check decides only whether
  one warning line is written: none when the contrast ratio is at least 3.0, one
  otherwise.
\<close>

theorem contrast_is_only_a_warning:
  "(\<forall>n. params_margin p = Some n \<longrightarrow> Number_isInteger n \<and> \<not> number_lt n 0 \<and> \<not> number_gt n 50)
   \<and> (\<forall>n. params_quietZone p = Some n \<longrightarrow>
          Number_isInteger n \<and> \<not> number_lt n 0 \<and> \<not> number_gt n 100)
   \<and> string_or (params_charsetSource p) (js ''UTF-8'') \<in> set supportedCharsets
   \<and> string_or (params_charsetTarget p) (js ''UTF-8'') \<in> set supportedCharsets
   \<and> isCompatibleWithCharset (params_data p) (string_or (params_charsetSource p) (js ''UTF-8''))
   \<longrightarrow> (\<exists>c. QRCodeConfiguration_new
                (p\<lparr>params_foregroundColor := Some fg, params_backgroundColor := Some bg\<rparr>)
              = Inr (c, if hasAccessibleContrast fg bg then [] else [contrast_warning])
            \<and> foregroundColor c = fg \<and> backgroundColor c = bg)"
proof (intro impI, elim conjE)
  assume m: "\<forall>n. params_margin p = Some n \<longrightarrow> Number_isInteger n \<and> \<not> number_lt n 0 \<and> \<not> number_gt n 50"
    and q: "\<forall>n. params_quietZone p = Some n \<longrightarrow>
          Number_isInteger n \<and> \<not> number_lt n 0 \<and> \<not> number_gt n 100"
    and cs: "string_or (params_charsetSource p) (js ''UTF-8'') \<in> set supportedCharsets"
    and ct: "string_or (params_charsetTarget p) (js ''UTF-8'') \<in> set supportedCharsets"
    and compat: "isCompatibleWithCharset (params_data p) (string_or (params_charsetSource p) (js ''UTF-8''))"
  have vm: "\<exists>k. validateMargin (params_margin p) = Inr k"
    using m by (cases "params_margin p") (auto simp: validateMargin_def)
  have vq: "\<exists>k. validateQuietZone (params_quietZone p) = Inr k"
    using q by (cases "params_quietZone p") (auto simp: validateQuietZone_def)
  from vm vq obtain k1 k2 where k: "validateMargin (params_margin p) = Inr k1"
    "validateQuietZone (params_quietZone p) = Inr k2" by blast
  show "\<exists>c. QRCodeConfiguration_new
                (p\<lparr>params_foregroundColor := Some fg, params_backgroundColor := Some bg\<rparr>)
              = Inr (c, if hasAccessibleContrast fg bg then [] else [contrast_warning])
            \<and> foregroundColor c = fg \<and> backgroundColor c = bg"
    using k cs ct compat
    by (simp add: QRCodeConfiguration_new_def validateConfiguration_def Let_def)
qed

theorem contrast_is_only_a_warning_witness:
  "getContrastRatio black black = 1 \<and> \<not> hasAccessibleContrast black black
   \<and> (\<exists>c. QRCodeConfiguration_new
             ((only_data \<lparr>content = js ''hi''\<rparr>)
                \<lparr>params_foregroundColor := Some black, params_backgroundColor := Some black\<rparr>)
           = Inr (c, [contrast_warning])
         \<and> foregroundColor c = black \<and> backgroundColor c = black)"
  using contrast_is_only_a_warning [of "only_data \<lparr>content = js ''hi''\<rparr>" black black]
  by (simp add: only_data_def string_or_def supportedCharsets_def isCompatibleWithCharset_def
        toUpperCase_def js_def hasAccessibleContrast_def getContrastRatio_def getLuminance_def
        sRGB_def black_def)

text \<open>
  The key is a function of the ten fields: configurations that agree on all of them have
  the same key, at every call.
\<close>

lemma getHashKey_same_fields:
  "data c1 = data c2 \<Longrightarrow> size' c1 = size' c2 \<Longrightarrow> format c1 = format c2 \<Longrightarrow>
   errorCorrectionLevel c1 = errorCorrectionLevel c2 \<Longrightarrow>
   foregroundColor c1 = foregroundColor c2 \<Longrightarrow> backgroundColor c1 = backgroundColor c2 \<Longrightarrow>
   margin c1 = margin c2 \<Longrightarrow> quietZone c1 = quietZone c2 \<Longrightarrow>
   charsetSource c1 = charsetSource c2 \<Longrightarrow> charsetTarget c1 = charsetTarget c2 \<Longrightarrow>
   getHashKey c1 = getHashKey c2"
  by (simp add: getHashKey_def)

text \<open>
  C1 (the code at the failing input). The strings \<open>"\\uD800"\<close> and \<open>"\\uD801"\<close> are
  accepted by \<open>DataPayload.create\<close>, and the constructor builds a configuration from each
  with every other field at its default. The two configurations differ in exactly one
  field, the data, and \<open>getHashKey\<close> returns the same string for both: \<open>Buffer.from\<close>
  encodes every lone surrogate as U+FFFD.
\<close>

theorem getHashKey_collides_on_lone_surrogates:
  "DataPayload_create reject_every_URL [0xD800] = Inr \<lparr>content = [0xD800]\<rparr>
   \<and> DataPayload_create reject_every_URL [0xD801] = Inr \<lparr>content = [0xD801]\<rparr>
   \<and> QRCodeConfiguration_new (only_data \<lparr>content = [0xD800]\<rparr>) = Inr (surrogate_config 0xD800, [])
   \<and> QRCodeConfiguration_new (only_data \<lparr>content = [0xD801]\<rparr>) = Inr (surrogate_config 0xD801, [])
   \<and> data (surrogate_config 0xD800) \<noteq> data (surrogate_config 0xD801)
   \<and> surrogate_config 0xD801 = (surrogate_config 0xD800)\<lparr>data := \<lparr>content = [0xD801]\<rparr>\<rparr>
   \<and> getHashKey (surrogate_config 0xD800) = getHashKey (surrogate_config 0xD801)
   \<and> getHashKey (surrogate_config 0xD800)
       = js ''77+9fDIwMHgyMDB8cG5nfEx8IzAwMDAwMHwjZmZmZmZmfDF8MHxVVEYtOHxVVEYtOA==''"
proof -
  have 1: "DataPayload_create reject_every_URL [0xD800] = Inr \<lparr>content = [0xD800]\<rparr>"
    "DataPayload_create reject_every_URL [0xD801] = Inr \<lparr>content = [0xD801]\<rparr>"
    by (simp_all add: DataPayload_create_def DataPayload_isUrl_def trim_def isWhiteSpace_def
          startsWith_def js_def)
  have 2: "QRCodeConfiguration_new (only_data \<lparr>content = [0xD800]\<rparr>) = Inr (surrogate_config 0xD800, [])"
    "QRCodeConfiguration_new (only_data \<lparr>content = [0xD801]\<rparr>) = Inr (surrogate_config 0xD801, [])"
    by (simp_all add: cfg_eval surrogate_config_def)
  have 3: "data (surrogate_config 0xD800) \<noteq> data (surrogate_config 0xD801)"
    "surrogate_config 0xD801 = (surrogate_config 0xD800)\<lparr>data := \<lparr>content = [0xD801]\<rparr>\<rparr>"
    by (simp_all add: surrogate_config_def)
  have 4: "getHashKey (surrogate_config 0xD800)
       = js ''77+9fDIwMHgyMDB8cG5nfEx8IzAwMDAwMHwjZmZmZmZmfDF8MHxVVEYtOHxVVEYtOA==''"
    by (simp add: hash_eval surrogate_config_def)
  have 5: "getHashKey (surrogate_config 0xD801)
       = js ''77+9fDIwMHgyMDB8cG5nfEx8IzAwMDAwMHwjZmZmZmZmfDF8MHxVVEYtOHxVVEYtOA==''"
    by (simp add: hash_eval surrogate_config_def)
  show ?thesis using 1 2 3 4 5 by simp
qed

section \<open>InMemoryCacheRepository\<close>

lemma Map_has_iff: "Map_has k m \<longleftrightarrow> k \<in> set (keys m)"
  by (simp add: Map_has_def map_of_eq_None_iff keys_def)

lemma in_keys: "p \<in> set m \<Longrightarrow> fst p \<in> set (keys m)"
  by (simp add: keys_def)

lemma length_keys: "length (keys m) = length m"
  by (simp add: keys_def)

lemma keys_Map_set:
  "keys (Map_set k e m) = (if k \<in> set (keys m) then keys m else keys m @ [k])"
  unfolding keys_def by (induction k e m rule: Map_set.induct) (auto simp: image_iff)

lemma map_of_Map_set: "map_of (Map_set k e m) k = Some e"
  by (induction m) auto

lemma map_of_Map_set_other: "k' \<noteq> k \<Longrightarrow> map_of (Map_set k e m) k' = map_of m k'"
  by (induction m) auto

lemma keys_Map_delete: "keys (Map_delete k m) = removeAll k (keys m)"
  unfolding keys_def by (induction m) (auto simp: Map_delete_def)

lemma map_of_Map_delete: "map_of (Map_delete k m) k = None"
  by (induction m) (auto simp: Map_delete_def)

lemma map_of_Map_delete_other: "k' \<noteq> k \<Longrightarrow> map_of (Map_delete k m) k' = map_of m k'"
  by (induction m) (auto simp: Map_delete_def)

lemma length_removeAll_distinct:
  "distinct xs \<Longrightarrow> x \<in> set xs \<Longrightarrow> Suc (length (removeAll x xs)) = length xs"
  by (induction xs) (auto simp: removeAll_id)

text \<open>The scan returns the first key among those with the least creation time.\<close>

lemma evict_scan_Some:
  assumes "evict_scan m (ok, Some t0) = (rk, rt)"
  shows "\<exists>t. rt = Some t \<and> t \<le> t0 \<and> (\<forall>p \<in> set m. t \<le> createdAt (snd p))
           \<and> ((rk = ok \<and> t = t0) \<or> (\<exists>p \<in> set m. rk = Some (fst p) \<and> createdAt (snd p) = t))"
  using assms
proof (induction m arbitrary: ok t0)
  case Nil
  then show ?case by simp
next
  case (Cons p m)
  obtain key entry where p: "p = (key, entry)" by (cases p)
  show ?case
  proof (cases "createdAt entry < t0")
    case True
    with Cons.prems p have "evict_scan m (Some key, Some (createdAt entry)) = (rk, rt)" by simp
    from Cons.IH[OF this] obtain t where t: "rt = Some t" "t \<le> createdAt entry"
      "\<forall>q \<in> set m. t \<le> createdAt (snd q)"
      "(rk = Some key \<and> t = createdAt entry) \<or> (\<exists>q \<in> set m. rk = Some (fst q) \<and> createdAt (snd q) = t)"
      by blast
    have "(\<exists>q \<in> set (p # m). rk = Some (fst q) \<and> createdAt (snd q) = t)"
      using t(4) p by auto
    moreover have "t \<le> t0" using t(2) True by simp
    moreover have "\<forall>q \<in> set (p # m). t \<le> createdAt (snd q)" using t(2,3) p by simp
    ultimately show ?thesis using t(1) by blast
  next
    case False
    with Cons.prems p have "evict_scan m (ok, Some t0) = (rk, rt)" by simp
    from Cons.IH[OF this] obtain t where t: "rt = Some t" "t \<le> t0"
      "\<forall>q \<in> set m. t \<le> createdAt (snd q)"
      "(rk = ok \<and> t = t0) \<or> (\<exists>q \<in> set m. rk = Some (fst q) \<and> createdAt (snd q) = t)"
      by blast
    have "(rk = ok \<and> t = t0) \<or> (\<exists>q \<in> set (p # m). rk = Some (fst q) \<and> createdAt (snd q) = t)"
      using t(4) by auto
    moreover have "\<forall>q \<in> set (p # m). t \<le> createdAt (snd q)" using t(2,3) p False by simp
    ultimately show ?thesis using t(1,2) by blast
  qed
qed

lemma evict_scan_oldest:
  assumes "m \<noteq> []"
  shows "\<exists>p \<in> set m. fst (evict_scan m (None, None)) = Some (fst p)
           \<and> (\<forall>q \<in> set m. createdAt (snd p) \<le> createdAt (snd q))"
proof -
  obtain key entry rest where m: "m = (key, entry) # rest" using assms by (cases m) auto
  obtain rk rt where res: "evict_scan rest (Some key, Some (createdAt entry)) = (rk, rt)"
    by (cases "evict_scan rest (Some key, Some (createdAt entry))")
  from evict_scan_Some[OF res] obtain t where t: "rt = Some t" "t \<le> createdAt entry"
      "\<forall>q \<in> set rest. t \<le> createdAt (snd q)"
      "(rk = Some key \<and> t = createdAt entry) \<or> (\<exists>q \<in> set rest. rk = Some (fst q) \<and> createdAt (snd q) = t)"
    by blast
  have fst_eq: "fst (evict_scan m (None, None)) = rk" using m res by simp
  from t(4) show ?thesis
  proof
    assume "rk = Some key \<and> t = createdAt entry"
    then show ?thesis using fst_eq t(3) m by auto
  next
    assume "\<exists>q \<in> set rest. rk = Some (fst q) \<and> createdAt (snd q) = t"
    then obtain q where q: "q \<in> set rest" "rk = Some (fst q)" "createdAt (snd q) = t" by blast
    have "q \<in> set m" using q(1) m by simp
    moreover have "\<forall>q' \<in> set m. createdAt (snd q) \<le> createdAt (snd q')"
      using t(2,3) q(3) m by simp
    ultimately show ?thesis using fst_eq q(2) by blast
  qed
qed


lemma evictOldest_removes_oldest:
  assumes "m \<noteq> []" "[] \<notin> set (keys m)"
  shows "\<exists>p \<in> set m. evictOldest m = Map_delete (fst p) m
           \<and> (\<forall>q \<in> set m. createdAt (snd p) \<le> createdAt (snd q))"
proof -
  from evict_scan_oldest[OF assms(1)] obtain p where p: "p \<in> set m"
    "fst (evict_scan m (None, None)) = Some (fst p)"
    "\<forall>q \<in> set m. createdAt (snd p) \<le> createdAt (snd q)" by blast
  have "fst p \<noteq> []" using in_keys[OF p(1)] assms(2) by auto
  then have "evictOldest m = Map_delete (fst p) m" using p(2) by (simp add: evictOldest_def)
  then show ?thesis using p(1,3) by blast
qed

lemma cache_set_evicts_oldest:
  assumes "int (length (cache s)) \<ge> maxKeys s" "\<not> Map_has key (cache s)"
    and "cache s \<noteq> []" "[] \<notin> set (keys (cache s))"
  shows "\<exists>p \<in> set (cache s).
           (\<forall>q \<in> set (cache s). createdAt (snd p) \<le> createdAt (snd q))
           \<and> cache (cache_set now key v ttl s) =
               Map_set key \<lparr>qrCode = v, expiresAt = now + ttl_or ttl (defaultTTL s) * 1000,
                              createdAt = now\<rparr> (Map_delete (fst p) (cache s))"
proof -
  from evictOldest_removes_oldest[OF assms(3,4)] obtain p where p: "p \<in> set (cache s)"
    "evictOldest (cache s) = Map_delete (fst p) (cache s)"
    "\<forall>q \<in> set (cache s). createdAt (snd p) \<le> createdAt (snd q)" by blast
  have "cache (cache_set now key v ttl s) =
          Map_set key \<lparr>qrCode = v, expiresAt = now + ttl_or ttl (defaultTTL s) * 1000,
                         createdAt = now\<rparr> (Map_delete (fst p) (cache s))"
    using assms(1,2) p(2) by (simp add: cache_set_def Let_def)
  then show ?thesis using p(1,3) by blast
qed

lemma maxKeys_apply_op [simp]: "maxKeys (apply_op x s) = maxKeys s"
  by (cases x) (simp_all add: cache_set_def cache_delete_def cache_clear_def Let_def)

lemma length_Map_delete_distinct:
  assumes "distinct (keys m)" "p \<in> set m"
  shows "Suc (length (Map_delete (fst p) m)) = length m"
proof -
  have "Suc (length (removeAll (fst p) (keys m))) = length (keys m)"
    using length_removeAll_distinct[OF assms(1) in_keys[OF assms(2)]] .
  then show ?thesis by (simp add: keys_Map_delete[symmetric] length_keys)
qed

lemma cache_set_ok:
  assumes "cache_ok s" "1 \<le> maxKeys s" "key \<noteq> []"
  shows "cache_ok (cache_set now key v ttl s)"
proof (cases "int (length (cache s)) \<ge> maxKeys s \<and> \<not> Map_has key (cache s)")
  case True
  then have full: "int (length (cache s)) \<ge> maxKeys s" and new: "\<not> Map_has key (cache s)" by auto
  have ne: "cache s \<noteq> []" using full assms(2) by auto
  have nk: "[] \<notin> set (keys (cache s))" and dist: "distinct (keys (cache s))"
    and le: "int (length (cache s)) \<le> maxKeys s"
    using assms(1) by (auto simp: cache_ok_def)
  from cache_set_evicts_oldest[OF full new ne nk, of now v ttl] obtain p e where p: "p \<in> set (cache s)"
    and c: "cache (cache_set now key v ttl s) = Map_set key e (Map_delete (fst p) (cache s))"
    by blast
  let ?m = "Map_delete (fst p) (cache s)"
  have knew: "key \<notin> set (keys ?m)"
    using new by (auto simp: Map_has_iff keys_Map_delete)
  have keys: "keys (Map_set key e ?m) = keys ?m @ [key]"
    using knew by (simp add: keys_Map_set)
  have len: "Suc (length ?m) = length (cache s)" using length_Map_delete_distinct[OF dist p] .
  have "distinct (keys ?m)" using dist by (simp add: keys_Map_delete distinct_removeAll)
  then have d': "distinct (keys (Map_set key e ?m))" using knew keys by simp
  have n': "[] \<notin> set (keys (Map_set key e ?m))"
    using nk assms(3) keys by (auto simp: keys_Map_delete)
  have "length (Map_set key e ?m) = length (cache s)"
    using keys len by (metis length_append_singleton length_keys)
  then have l': "int (length (Map_set key e ?m)) \<le> maxKeys s" using le by simp
  have mk: "maxKeys (cache_set now key v ttl s) = maxKeys s" by (simp add: cache_set_def Let_def)
  show ?thesis using d' n' l' c mk by (simp add: cache_ok_def)
next
  case False
  let ?e = "\<lparr>qrCode = v, expiresAt = now + ttl_or ttl (defaultTTL s) * 1000, createdAt = now\<rparr>"
  have c: "cache (cache_set now key v ttl s) = Map_set key ?e (cache s)"
    using False by (auto simp: cache_set_def Let_def)
  have mk: "maxKeys (cache_set now key v ttl s) = maxKeys s" by (simp add: cache_set_def Let_def)
  have nk: "[] \<notin> set (keys (cache s))" and dist: "distinct (keys (cache s))"
    and le: "int (length (cache s)) \<le> maxKeys s"
    using assms(1) by (auto simp: cache_ok_def)
  show ?thesis
  proof (cases "Map_has key (cache s)")
    case True
    then have "keys (Map_set key ?e (cache s)) = keys (cache s)"
      by (simp add: keys_Map_set Map_has_iff)
    moreover from this have "length (Map_set key ?e (cache s)) = length (cache s)"
      by (metis length_keys)
    ultimately show ?thesis using nk dist le c mk by (simp add: cache_ok_def)
  next
    case nh: False
    with False have lt: "int (length (cache s)) < maxKeys s" by auto
    have keys: "keys (Map_set key ?e (cache s)) = keys (cache s) @ [key]"
      using nh by (simp add: keys_Map_set Map_has_iff)
    then have "length (Map_set key ?e (cache s)) = Suc (length (cache s))"
      by (metis length_append_singleton length_keys)
    moreover have "distinct (keys (Map_set key ?e (cache s)))"
      using keys dist nh by (simp add: Map_has_iff)
    moreover have "[] \<notin> set (keys (Map_set key ?e (cache s)))"
      using keys nk assms(3) by auto
    ultimately show ?thesis using lt c mk by (simp add: cache_ok_def)
  qed
qed

lemma cache_delete_ok: "cache_ok s \<Longrightarrow> cache_ok (cache_delete key s)"
proof -
  assume ok: "cache_ok s"
  have "length (Map_delete key (cache s)) \<le> length (cache s)"
    by (simp add: Map_delete_def)
  then show ?thesis using ok
    by (simp add: cache_ok_def cache_delete_def keys_Map_delete distinct_removeAll)
qed

lemma cache_clear_ok: "0 \<le> maxKeys s \<Longrightarrow> cache_ok (cache_clear s)"
  by (simp add: cache_ok_def cache_clear_def keys_def)

lemma apply_ops_ok:
  assumes "cache_ok s" "1 \<le> maxKeys s" "list_all op_key_nonempty ops"
  shows "cache_ok (apply_ops ops s) \<and> maxKeys (apply_ops ops s) = maxKeys s"
  using assms
proof (induction ops arbitrary: s)
  case Nil
  then show ?case by simp
next
  case (Cons x xs)
  have "cache_ok (apply_op x s)"
  proof (cases x)
    case (Set now key q ttl)
    then show ?thesis using Cons.prems cache_set_ok by auto
  next
    case (Delete key)
    then show ?thesis using Cons.prems cache_delete_ok by auto
  next
    case Clear
    then show ?thesis using Cons.prems cache_clear_ok[of s] by auto
  qed
  moreover have "1 \<le> maxKeys (apply_op x s)" using Cons.prems by simp
  moreover have "list_all op_key_nonempty xs" using Cons.prems by simp
  ultimately have "cache_ok (apply_ops xs (apply_op x s))
      \<and> maxKeys (apply_ops xs (apply_op x s)) = maxKeys (apply_op x s)"
    using Cons.IH by blast
  then show ?case by simp
qed

lemma nonempty_keys_bounded:
  assumes "1 \<le> mk" "list_all op_key_nonempty ops"
  shows "int (length (cache (apply_ops ops (InMemoryCacheRepository_new mk ttl)))) \<le> mk"
proof -
  have "cache_ok (InMemoryCacheRepository_new mk ttl :: 'a InMemoryCacheRepository)"
    using assms(1) by (simp add: cache_ok_def InMemoryCacheRepository_new_def keys_def)
  moreover have "maxKeys (InMemoryCacheRepository_new mk ttl :: 'a InMemoryCacheRepository) = mk"
    by (simp add: InMemoryCacheRepository_new_def)
  ultimately show ?thesis
    using apply_ops_ok[of "InMemoryCacheRepository_new mk ttl" ops] assms
    by (simp add: cache_ok_def)
qed

text \<open>
  C6 (the code at the failing input). A repository with \<open>maxKeys = 1\<close> receives
  \<open>set('', q0)\<close> at time 1 and \<open>set('a', q1)\<close> at time 2. At the second call the store is
  at capacity and the key is new, so \<open>evictOldest\<close> runs; its scan finds the oldest key,
  the empty string, and \<open>if (oldestKey)\<close> takes it for "no key found": nothing is evicted,
  and the store holds two entries. With keys that are never empty the claim holds
  (\<open>cache_set_evicts_oldest\<close>, \<open>nonempty_keys_bounded\<close>).
\<close>

theorem evictOldest_skips_empty_key:
  "maxKeys (apply_ops [Set 1 [] 0 None, Set 2 (js ''a'') 1 None]
             (InMemoryCacheRepository_new 1 3600 :: nat InMemoryCacheRepository)) = 1
   \<and> keys (cache (apply_ops [Set 1 [] 0 None, Set 2 (js ''a'') 1 None]
             (InMemoryCacheRepository_new 1 3600 :: nat InMemoryCacheRepository)))
       = [[], js ''a'']"
  by (simp add: cache_set_def InMemoryCacheRepository_new_def Map_has_def evictOldest_def
        js_def ttl_or_def keys_def)

text \<open>
  C7. \<open>set(k, v, ttl)\<close> at time \<open>now\<close> stores under \<open>k\<close> an entry holding \<open>v\<close> that expires
  at \<open>now + ttl * 1000\<close> (the default TTL when \<open>ttl\<close> is absent or 0). A \<open>get(k)\<close> on a
  store holding an entry under \<open>k\<close> that has not expired (the clock is not past
  \<open>expiresAt\<close>) returns the entry's artifact and adds one to the hit counter, changing
  nothing else. A \<open>get(k)\<close> after \<open>expiresAt\<close> has passed returns absent, removes the
  entry from the map and adds one to the miss counter. A \<open>get\<close> on an absent key returns
  absent and adds one to the miss counter. In particular a \<open>get(k)\<close> right after
  \<open>set(k, v, ttl)\<close> returns \<open>v\<close> as a hit while the entry is unexpired, and absent as a
  miss, with the entry removed, once it has expired.
\<close>

theorem cache_get_semantics:
  "map_of (cache (cache_set now key v ttl s)) key
      = Some \<lparr>qrCode = v, expiresAt = now + ttl_or ttl (defaultTTL s) * 1000, createdAt = now\<rparr>
   \<and> (map_of (cache s) key = Some e \<and> \<not> now' > expiresAt e \<longrightarrow>
        cache_get now' key s = (Some (qrCode e), s\<lparr>hits := hits s + 1\<rparr>))
   \<and> (map_of (cache s) key = Some e \<and> now' > expiresAt e \<longrightarrow>
        cache_get now' key s
          = (None, s\<lparr>cache := Map_delete key (cache s), misses := misses s + 1\<rparr>)
        \<and> map_of (Map_delete key (cache s)) key = None)
   \<and> (map_of (cache s) key = None \<longrightarrow>
        cache_get now' key s = (None, s\<lparr>misses := misses s + 1\<rparr>))
   \<and> (\<not> now' > now + ttl_or ttl (defaultTTL s) * 1000 \<longrightarrow>
        fst (cache_get now' key (cache_set now key v ttl s)) = Some v
        \<and> hits (snd (cache_get now' key (cache_set now key v ttl s))) = hits s + 1
        \<and> misses (snd (cache_get now' key (cache_set now key v ttl s))) = misses s)
   \<and> (now' > now + ttl_or ttl (defaultTTL s) * 1000 \<longrightarrow>
        fst (cache_get now' key (cache_set now key v ttl s)) = None
        \<and> map_of (cache (snd (cache_get now' key (cache_set now key v ttl s)))) key = None
        \<and> misses (snd (cache_get now' key (cache_set now key v ttl s))) = misses s + 1
        \<and> hits (snd (cache_get now' key (cache_set now key v ttl s))) = hits s)"
proof -
  have stored: "map_of (cache (cache_set now key v ttl s)) key
      = Some \<lparr>qrCode = v, expiresAt = now + ttl_or ttl (defaultTTL s) * 1000, createdAt = now\<rparr>"
    by (simp add: cache_set_def Let_def map_of_Map_set)
  have counters: "hits (cache_set now key v ttl s) = hits s"
    "misses (cache_set now key v ttl s) = misses s"
    by (simp_all add: cache_set_def Let_def)
  show ?thesis
    using stored counters
    by (simp add: cache_get_def map_of_Map_delete)
qed

theorem cache_get_semantics_witness:
  "fst (cache_get 1000 (js ''k'')
          (cache_set 0 (js ''k'') 7 (Some 1) (InMemoryCacheRepository_new 10 3600
             :: nat InMemoryCacheRepository))) = Some 7
   \<and> fst (cache_get 1100 (js ''k'')
          (cache_set 0 (js ''k'') 7 (Some 1) (InMemoryCacheRepository_new 10 3600
             :: nat InMemoryCacheRepository))) = None
   \<and> misses (snd (cache_get 1100 (js ''k'')
          (cache_set 0 (js ''k'') 7 (Some 1) (InMemoryCacheRepository_new 10 3600
             :: nat InMemoryCacheRepository)))) = 1
   \<and> cache_get 5 (js ''absent'') (InMemoryCacheRepository_new 10 3600 :: nat InMemoryCacheRepository)
       = (None, (InMemoryCacheRepository_new 10 3600)\<lparr>misses := 1\<rparr>)"
  using cache_get_semantics [of 0 "js ''k''" 7 "Some 1"
      "InMemoryCacheRepository_new 10 3600 :: nat InMemoryCacheRepository" _ 1000]
    cache_get_semantics [of 0 "js ''k''" 7 "Some 1"
      "InMemoryCacheRepository_new 10 3600 :: nat InMemoryCacheRepository" _ 1100]
    cache_get_semantics [of 0 "js ''absent''" 7 "Some 1"
      "InMemoryCacheRepository_new 10 3600 :: nat InMemoryCacheRepository" _ 5]
  by (simp add: ttl_or_def InMemoryCacheRepository_new_def)

section \<open>CacheManagementUseCase\<close>

lemma try_catch_total:
  assumes "\<And>err st. \<exists>v st'. handler err st = (Inr v, st')"
  shows "\<exists>v st'. try_catch body handler = (Inr v, st')"
proof (cases body)
  case (Pair res st)
  then show ?thesis using assms by (cases res) (auto simp: try_catch_def)
qed

lemma try_catch_throw: "try_catch (Inl err, st) handler = handler err st"
  by (simp add: try_catch_def)

text \<open>
  C8. Whatever the repository does, \<open>get\<close>, \<open>set\<close>, \<open>delete\<close> and \<open>clear\<close> of the
  use case return a value and never raise. When the repository's \<open>get\<close> throws, the use
  case's \<open>get\<close> returns \<open>null\<close>, a miss; when the repository's \<open>set\<close> throws, the use
  case's \<open>set\<close> returns \<open>false\<close>; \<open>delete\<close> and \<open>clear\<close> return \<open>false\<close> likewise.
\<close>

theorem CacheManagementUseCase_never_raises:
  "(\<exists>v st'. CacheManagementUseCase_get uc key st = (Inr v, st'))
   \<and> (\<exists>v st'. CacheManagementUseCase_set uc key q ttl st = (Inr v, st'))
   \<and> (\<exists>v st'. CacheManagementUseCase_delete uc key st = (Inr v, st'))
   \<and> (\<exists>v st'. CacheManagementUseCase_clear uc st = (Inr v, st'))
   \<and> (fst (port_get (cacheRepository uc) key (fst st)) = Inl err \<longrightarrow>
        fst (CacheManagementUseCase_get uc key st) = Inr None)
   \<and> (fst (port_set (cacheRepository uc) key q (ttl_or ttl (uc_defaultTTL uc)) (fst st)) = Inl err \<longrightarrow>
        fst (CacheManagementUseCase_set uc key q ttl st) = Inr False)
   \<and> (fst (port_delete (cacheRepository uc) key (fst st)) = Inl err \<longrightarrow>
        fst (CacheManagementUseCase_delete uc key st) = Inr False)
   \<and> (fst (port_clear (cacheRepository uc) (fst st)) = Inl err \<longrightarrow>
        fst (CacheManagementUseCase_clear uc st) = Inr False)"
proof (intro conjI)
  show "\<exists>v st'. CacheManagementUseCase_get uc key st = (Inr v, st')"
    unfolding CacheManagementUseCase_get_def by (rule try_catch_total) auto
  show "\<exists>v st'. CacheManagementUseCase_set uc key q ttl st = (Inr v, st')"
    unfolding CacheManagementUseCase_set_def by (rule try_catch_total) auto
  show "\<exists>v st'. CacheManagementUseCase_delete uc key st = (Inr v, st')"
    unfolding CacheManagementUseCase_delete_def by (rule try_catch_total) auto
  show "\<exists>v st'. CacheManagementUseCase_clear uc st = (Inr v, st')"
    unfolding CacheManagementUseCase_clear_def by (rule try_catch_total) auto
  show "fst (port_get (cacheRepository uc) key (fst st)) = Inl err \<longrightarrow>
        fst (CacheManagementUseCase_get uc key st) = Inr None"
    by (auto simp: CacheManagementUseCase_get_def try_catch_def call_port_def logger_def
          split: prod.splits sum.splits option.splits)
  show "fst (port_set (cacheRepository uc) key q (ttl_or ttl (uc_defaultTTL uc)) (fst st)) = Inl err \<longrightarrow>
        fst (CacheManagementUseCase_set uc key q ttl st) = Inr False"
    by (auto simp: CacheManagementUseCase_set_def try_catch_def call_port_def logger_def Let_def
          split: prod.splits sum.splits option.splits)
  show "fst (port_delete (cacheRepository uc) key (fst st)) = Inl err \<longrightarrow>
        fst (CacheManagementUseCase_delete uc key st) = Inr False"
    by (auto simp: CacheManagementUseCase_delete_def try_catch_def call_port_def logger_def
          split: prod.splits sum.splits option.splits)
  show "fst (port_clear (cacheRepository uc) (fst st)) = Inl err \<longrightarrow>
        fst (CacheManagementUseCase_clear uc st) = Inr False"
    by (auto simp: CacheManagementUseCase_clear_def try_catch_def call_port_def logger_def
          split: prod.splits sum.splits option.splits)
qed

theorem CacheManagementUseCase_never_raises_witness:
  "fst (CacheManagementUseCase_get \<lparr>cacheRepository = failing_repository, uc_defaultTTL = 3600\<rparr>
          (js ''k'') ((), [])) = Inr None
   \<and> fst (CacheManagementUseCase_set \<lparr>cacheRepository = failing_repository, uc_defaultTTL = 3600\<rparr>
          (js ''k'') 7 None ((), [])) = Inr False
   \<and> fst (CacheManagementUseCase_delete \<lparr>cacheRepository = failing_repository, uc_defaultTTL = 3600\<rparr>
          (js ''k'') ((), [])) = Inr False
   \<and> fst (CacheManagementUseCase_clear \<lparr>cacheRepository = failing_repository, uc_defaultTTL = 3600\<rparr>
          ((), [])) = Inr False"
  using CacheManagementUseCase_never_raises
    [of "\<lparr>cacheRepository = failing_repository, uc_defaultTTL = 3600\<rparr>" "js ''k''" "((), [])"
        7 None "''connection lost''"]
  by (simp add: failing_repository_def)

section \<open>ValidateParametersUseCase\<close>






















section \<open>Logo\<close>

lemma toLowerCase_append: "toLowerCase (xs @ ys) = toLowerCase xs @ toLowerCase ys"
  by (simp add: toLowerCase_def)

lemma endsWith_append: "endsWith s p \<longleftrightarrow> (\<exists>pre. s = pre @ p)"
proof
  assume "endsWith s p"
  then have "s = take (length s - length p) s @ p"
    by (metis append_take_drop_id endsWith_def)
  then show "\<exists>pre. s = pre @ p" ..
next
  assume "\<exists>pre. s = pre @ p"
  then show "endsWith s p" by (auto simp: endsWith_def)
qed

lemma toLowerCase_ext:
  "toLowerCase (js ''.png'') = js ''.png''" "toLowerCase (js ''.jpg'') = js ''.jpg''"
  "toLowerCase (js ''.jpeg'') = js ''.jpeg''" "toLowerCase (js ''.svg'') = js ''.svg''"
  by (simp_all add: toLowerCase_def js_def)

lemma endsWith_toLowerCase:
  assumes "endsWith path ext" "toLowerCase ext = ext"
  shows "endsWith (toLowerCase path) ext"
proof -
  from assms(1) obtain pre where "path = pre @ ext" by (auto simp: endsWith_append)
  then have "toLowerCase path = toLowerCase pre @ ext"
    using assms(2) by (simp add: toLowerCase_append)
  then show ?thesis by (auto simp: endsWith_append)
qed

lemma image_path_toLowerCase: "image_path path \<Longrightarrow> image_path (toLowerCase path)"
  unfolding image_path_def using endsWith_toLowerCase toLowerCase_ext by metis

lemma Logo_validateUrl_cases:
  assumes "new_URL s = Some u"
  shows "Logo_validateUrl new_URL s =
           (if blocked_host (hostname u) then Some LogoPrivateHost
            else if image_path (toLowerCase (pathname u)) then None
            else Some LogoUnsupportedExtension)"
  using assms by (simp add: Logo_validateUrl_def blocked_host_def image_path_def Let_def)

lemma Logo_validateSource_url:
  assumes "new_URL (trim src) = Some u" "protocol u = js ''http:'' \<or> protocol u = js ''https:''"
    and "trim src \<noteq> []"
  shows "Logo_validateSource new_URL src =
           (if blocked_host (hostname u) then Inl LogoPrivateHost
            else if image_path (toLowerCase (pathname u)) then Inr (trim src)
            else Inl LogoUnsupportedExtension)"
proof -
  have ne: "src \<noteq> []" using assms(3) by (auto simp: trim_def)
  have isurl: "Logo_isUrl new_URL (trim src)" using assms(1,2) by (simp add: Logo_isUrl_def)
  show ?thesis
    using ne assms(3) isurl Logo_validateUrl_cases[of new_URL "trim src" u, OF assms(1)]
    by (simp add: Logo_validateSource_def Let_def)
qed

text \<open>
  C10. Let the trimmed source parse as a URL with protocol \<open>http:\<close> or \<open>https:\<close>. If its
  hostname is \<open>localhost\<close> or \<open>127.0.0.1\<close>, or starts with \<open>192.168.\<close>, \<open>10.\<close> or
  \<open>172.\<close>, then \<open>Logo.create\<close> fails with the private-address error, whatever the size
  and margin: the test is on the prefix of the name, so it also rejects the public address
  172.5.5.5 and the name 10.example.com. For any other hostname, if the path ends in
  \<open>.png\<close>, \<open>.jpg\<close>, \<open>.jpeg\<close> or \<open>.svg\<close> (in any letter case), \<open>Logo.create\<close> succeeds
  whenever the size and the margin given are valid, and with no size and margin given it
  returns the logo with size 50 and margin 5.
\<close>

theorem Logo_private_host_filter_is_prefix_based:
  "new_URL (trim src) = Some u \<and> (protocol u = js ''http:'' \<or> protocol u = js ''https:'')
   \<and> trim src \<noteq> []
   \<longrightarrow> (blocked_host (hostname u) \<longrightarrow> Logo_create new_URL src sz mg = Inl LogoPrivateHost)
     \<and> (\<not> blocked_host (hostname u)
          \<and> (image_path (pathname u) \<or> image_path (toLowerCase (pathname u)))
          \<and> Logo_validateSize (effective_size sz) = Inr k1
          \<and> Logo_validateMargin (effective_margin mg) = Inr k2
        \<longrightarrow> Logo_create new_URL src sz mg
              = Inr \<lparr>logo_source = trim src, logo_size = k1, logo_margin = k2\<rparr>)
     \<and> (\<not> blocked_host (hostname u) \<and> image_path (pathname u)
        \<longrightarrow> Logo_create new_URL src None None
              = Inr \<lparr>logo_source = trim src, logo_size = 50, logo_margin = 5\<rparr>)"
proof (intro impI, elim conjE)
  assume u: "new_URL (trim src) = Some u" and pr: "protocol u = js ''http:'' \<or> protocol u = js ''https:''"
    and ne: "trim src \<noteq> []"
  note vs = Logo_validateSource_url[of new_URL src u, OF u pr ne]
  have a: "blocked_host (hostname u) \<longrightarrow> Logo_create new_URL src sz mg = Inl LogoPrivateHost"
    using vs by (simp add: Logo_create_def)
  have b: "\<not> blocked_host (hostname u)
          \<and> (image_path (pathname u) \<or> image_path (toLowerCase (pathname u)))
          \<and> Logo_validateSize (effective_size sz) = Inr k1
          \<and> Logo_validateMargin (effective_margin mg) = Inr k2
        \<longrightarrow> Logo_create new_URL src sz mg
              = Inr \<lparr>logo_source = trim src, logo_size = k1, logo_margin = k2\<rparr>"
    using vs image_path_toLowerCase[of "pathname u"]
    by (auto simp: Logo_create_def effective_size_def effective_margin_def)
  have c: "\<not> blocked_host (hostname u) \<and> image_path (pathname u)
        \<longrightarrow> Logo_create new_URL src None None
              = Inr \<lparr>logo_source = trim src, logo_size = 50, logo_margin = 5\<rparr>"
    using vs image_path_toLowerCase[of "pathname u"]
    by (auto simp: Logo_create_def Logo_validateSize_def Logo_validateMargin_def)
  show "(blocked_host (hostname u) \<longrightarrow> Logo_create new_URL src sz mg = Inl LogoPrivateHost)
     \<and> (\<not> blocked_host (hostname u)
          \<and> (image_path (pathname u) \<or> image_path (toLowerCase (pathname u)))
          \<and> Logo_validateSize (effective_size sz) = Inr k1
          \<and> Logo_validateMargin (effective_margin mg) = Inr k2
        \<longrightarrow> Logo_create new_URL src sz mg
              = Inr \<lparr>logo_source = trim src, logo_size = k1, logo_margin = k2\<rparr>)
     \<and> (\<not> blocked_host (hostname u) \<and> image_path (pathname u)
        \<longrightarrow> Logo_create new_URL src None None
              = Inr \<lparr>logo_source = trim src, logo_size = 50, logo_margin = 5\<rparr>)"
    using a b c by blast
qed

lemmas logo_eval = sample_URL_def blocked_host_def image_path_def trim_def isWhiteSpace_def
  startsWith_def endsWith_def toLowerCase_def js_def

theorem Logo_private_host_filter_is_prefix_based_witness:
  "Logo_create sample_URL (js ''http://172.5.5.5/a.png'') None None = Inl LogoPrivateHost
   \<and> Logo_create sample_URL (js ''https://10.example.com/logo.svg'') (Some (Finite 40)) None
       = Inl LogoPrivateHost
   \<and> Logo_create sample_URL (js ''http://localhost/x.png'') None None = Inl LogoPrivateHost
   \<and> Logo_create sample_URL (js ''https://example.com/img/logo.JPG'') None None
       = Inr \<lparr>logo_source = js ''https://example.com/img/logo.JPG'', logo_size = 50,
               logo_margin = 5\<rparr>"
  using Logo_private_host_filter_is_prefix_based
      [of sample_URL "js ''http://172.5.5.5/a.png''"
          "\<lparr>protocol = js ''http:'', hostname = js ''172.5.5.5'', pathname = js ''/a.png''\<rparr>"
          None None 50 5]
    Logo_private_host_filter_is_prefix_based
      [of sample_URL "js ''https://10.example.com/logo.svg''"
          "\<lparr>protocol = js ''https:'', hostname = js ''10.example.com'',
            pathname = js ''/logo.svg''\<rparr>" "Some (Finite 40)" None 40 5]
    Logo_private_host_filter_is_prefix_based
      [of sample_URL "js ''http://localhost/x.png''"
          "\<lparr>protocol = js ''http:'', hostname = js ''localhost'', pathname = js ''/x.png''\<rparr>"
          None None 50 5]
    Logo_private_host_filter_is_prefix_based
      [of sample_URL "js ''https://example.com/img/logo.JPG''"
          "\<lparr>protocol = js ''https:'', hostname = js ''example.com'',
            pathname = js ''/img/logo.JPG''\<rparr>" None None 50 5]
  by (simp add: logo_eval effective_size_def effective_margin_def Logo_validateSize_def
        Logo_validateMargin_def)

section \<open>GenerateQRCodeUseCase\<close>

lemma uc_get_InMemory:
  "CacheManagementUseCase_get \<lparr>cacheRepository = InMemory_port now, uc_defaultTTL = d\<rparr> key (s, l)
     = (Inr (fst (cache_get now key s)),
        (snd (cache_get now key s),
         l @ [(Debug, ''Cache get operation''),
              (Debug, if fst (cache_get now key s) = None then ''Cache miss'' else ''Cache hit'')]))"
  by (cases "cache_get now key s")
     (auto simp: CacheManagementUseCase_get_def try_catch_def call_port_def logger_def
        InMemory_port_def split: option.splits)

lemma uc_set_InMemory:
  "CacheManagementUseCase_set \<lparr>cacheRepository = InMemory_port now, uc_defaultTTL = d\<rparr> key q ttl (s, l)
     = (Inr True,
        (cache_set now key q (Some (ttl_or ttl d)) s,
         l @ [(Debug, ''Cache set operation''), (Debug, ''Cache set successful'')]))"
  by (simp add: CacheManagementUseCase_set_def try_catch_def call_port_def logger_def
        InMemory_port_def Let_def)

lemma defaultTTL_cache_get: "defaultTTL (snd (cache_get now key s)) = defaultTTL s"
  by (simp add: cache_get_def split: option.splits)

lemma map_of_cache_set:
  "map_of (cache (cache_set now key v ttl s)) key
      = Some \<lparr>qrCode = v, expiresAt = now + ttl_or ttl (defaultTTL s) * 1000, createdAt = now\<rparr>"
  by (simp add: cache_set_def Let_def map_of_Map_set)

text \<open>
  C2 (amended). On a cache miss the orchestrator stores the rendered artifact through
  the cache use case's \<open>set\<close> without a TTL argument. With the in-memory repository, after
  a request that was served by rendering (\<open>cacheHit\<close> false) the store holds, under the
  configuration's key, the artifact with a time to live of the use case's default TTL in
  milliseconds (the repository's default when the use case's is 0), whatever the
  configuration is: complex and non-complex configurations get the same TTL.
\<close>

theorem miss_ttl_is_the_default:
  "GenerateQRCodeUseCase_execute U gen \<lparr>cacheRepository = InMemory_port now, uc_defaultTTL = d\<rparr>
       rq (s, l) = (SuccessResponse q False, (s', l'))
   \<longrightarrow> (\<exists>cfg w e. buildConfiguration U rq = Inr (cfg, w)
          \<and> map_of (cache s') (getHashKey cfg) = Some e
          \<and> qrCode e = q \<and> createdAt e = now
          \<and> entry_ttl e = ttl_or (Some d) (defaultTTL s) * 1000)"
proof
  let ?uc = "\<lparr>cacheRepository = InMemory_port now, uc_defaultTTL = d\<rparr>"
  let ?st = "logger Info ''QR Code generation started'' (s, l)"
  assume ex: "GenerateQRCodeUseCase_execute U gen ?uc rq (s, l) = (SuccessResponse q False, (s', l'))"
  have st: "?st = (s, l @ [(Info, ''QR Code generation started'')])" by (simp add: logger_def)
  from ex have valid: "isValid (ValidateParametersUseCase_execute U rq)"
    by (auto simp: GenerateQRCodeUseCase_execute_def Let_def split: if_splits)
  from ex valid obtain cfg w where bc: "buildConfiguration U rq = Inr (cfg, w)"
    by (cases "buildConfiguration U rq") (auto simp: GenerateQRCodeUseCase_execute_def Let_def)
  let ?key = "getHashKey cfg"
  let ?s1 = "snd (cache_get now ?key s)"
  from ex valid bc have miss: "fst (cache_get now ?key s) = None"
    by (auto simp: GenerateQRCodeUseCase_execute_def Let_def st uc_get_InMemory logger_def
          split: option.splits sum.splits)
  from ex valid bc miss obtain art where g: "gen cfg = Inr art"
    by (cases "gen cfg")
       (auto simp: GenerateQRCodeUseCase_execute_def Let_def st uc_get_InMemory logger_def)
  from ex valid bc miss g have res: "q = art" "s' = cache_set now ?key art (Some (ttl_or None d)) ?s1"
    by (auto simp: GenerateQRCodeUseCase_execute_def Let_def st uc_get_InMemory uc_set_InMemory
          logger_def)
  let ?e = "\<lparr>qrCode = q, expiresAt = now + ttl_or (Some d) (defaultTTL s) * 1000, createdAt = now\<rparr>"
  have "map_of (cache s') ?key = Some ?e"
    using res map_of_cache_set[of now ?key art "Some d" ?s1]
    by (simp add: ttl_or_def defaultTTL_cache_get)
  moreover have "entry_ttl ?e = ttl_or (Some d) (defaultTTL s) * 1000" by (simp add: entry_ttl_def)
  ultimately show "\<exists>cfg w e. buildConfiguration U rq = Inr (cfg, w)
          \<and> map_of (cache s') (getHashKey cfg) = Some e
          \<and> qrCode e = q \<and> createdAt e = now
          \<and> entry_ttl e = ttl_or (Some d) (defaultTTL s) * 1000"
    using bc by (intro exI[of _ cfg] exI[of _ w] exI[of _ ?e]) simp
qed

lemma valid_requests:
  "isValid (ValidateParametersUseCase_execute reject_every_URL request_H)"
  "isValid (ValidateParametersUseCase_execute reject_every_URL request_L)"
  by (simp_all add: ValidateParametersUseCase_execute_def request_H_def request_L_def
     empty_request_def truthy_def truthy_number_def
     validateData_def validateErrorCorrectionLevel_def ErrorCorrectionLevelValue_create_def toUpperCase_def
     DataPayload_create_def DataPayload_isUrl_def push_errors_def success_def isValid_def getErrors_def js_eval)

lemma build_requests:
  "buildConfiguration reject_every_URL request_H = Inr (config_of HIGH, [])"
  "buildConfiguration reject_every_URL request_L = Inr (config_of LOW, [])"
  by (simp_all add: buildConfiguration_def request_H_def request_L_def empty_request_def truthy_def
     ErrorCorrectionLevelValue_create_def toUpperCase_def config_of_def
     DataPayload_create_def DataPayload_isUrl_def cfg_eval js_eval)

lemma serve_requests:
  "serve_on_empty_cache request_H
     = (SuccessResponse (config_of HIGH) False,
        (cache_set 0 (getHashKey (config_of HIGH)) (config_of HIGH) (Some 3600)
           ((InMemoryCacheRepository_new 1000 3600)\<lparr>misses := 1\<rparr>),
         [(Info, ''QR Code generation started''), (Debug, ''Cache get operation''),
          (Debug, ''Cache miss''), (Debug, ''Cache set operation''),
          (Debug, ''Cache set successful''), (Info, ''QR Code generated successfully'')]))"
  "serve_on_empty_cache request_L
     = (SuccessResponse (config_of LOW) False,
        (cache_set 0 (getHashKey (config_of LOW)) (config_of LOW) (Some 3600)
           ((InMemoryCacheRepository_new 1000 3600)\<lparr>misses := 1\<rparr>),
         [(Info, ''QR Code generation started''), (Debug, ''Cache get operation''),
          (Debug, ''Cache miss''), (Debug, ''Cache set operation''),
          (Debug, ''Cache set successful''), (Info, ''QR Code generated successfully'')]))"
  by (simp_all add: serve_on_empty_cache_def GenerateQRCodeUseCase_execute_def valid_requests
        build_requests sample_cache_def uc_get_InMemory uc_set_InMemory logger_def
        sample_generator_def cache_get_def InMemoryCacheRepository_new_def ttl_or_def Let_def)

text \<open>
  C2 (counterexample). Two requests are served on an empty cache whose use case has the
  default TTL of 3600 seconds. The first asks for the highest error-correction level, so
  its configuration is complex; the second takes every default and is not complex (for the
  size threshold 500). Both are rendered, and both entries are stored with a time to live
  of 3600000 ms: the complex one is not cached longer.
\<close>

theorem complex_and_simple_get_the_same_ttl:
  "fst (serve_on_empty_cache request_H) = SuccessResponse (config_of HIGH) False
   \<and> fst (serve_on_empty_cache request_L) = SuccessResponse (config_of LOW) False
   \<and> spec_isComplex 500 (config_of HIGH) \<and> \<not> spec_isComplex 500 (config_of LOW)
   \<and> stored_ttls (fst (snd (serve_on_empty_cache request_H))) = [3600000]
   \<and> stored_ttls (fst (snd (serve_on_empty_cache request_L))) = [3600000]"
  by (simp add: serve_requests spec_isComplex_def config_of_def getComplexityLevel_def js_def
        stored_ttls_def entry_ttl_def cache_set_def Map_has_def InMemoryCacheRepository_new_def
        ttl_or_def Let_def)

theorem miss_ttl_is_the_default_witness:
  "\<exists>e. map_of (cache (fst (snd (serve_on_empty_cache request_H)))) (getHashKey (config_of HIGH))
          = Some e
       \<and> qrCode e = config_of HIGH \<and> createdAt e = 0 \<and> entry_ttl e = 3600000"
  using miss_ttl_is_the_default
    [of reject_every_URL sample_generator 0 3600 request_H "InMemoryCacheRepository_new 1000 3600"
        "[]" "config_of HIGH" "fst (snd (serve_on_empty_cache request_H))"
        "snd (snd (serve_on_empty_cache request_H))"]
    serve_requests(1)
  by (simp add: serve_on_empty_cache_def sample_cache_def build_requests ttl_or_def
        InMemoryCacheRepository_new_def)
end
